theory Spec2Isabelle
  imports Main "HOL-Library.Sublist"
begin

section \<open>Characters and strings\<close>

text \<open>
  A JavaScript string is modelled as a \<^typ>\<open>string\<close>: one \<^typ>\<open>char\<close> per code unit, for code
  units below 256. The character classes are those of the regular expressions of the source:
  \<open>[a-z]\<close>, \<open>[A-Z]\<close>, \<open>\d\<close>, \<open>\w\<close> and \<open>\s\<close> (space, tab, line feed, vertical tab, form
  feed, carriage return and the no-break space 0xA0). \<open>toLowerCase\<close> maps \<open>A-Z\<close> to \<open>a-z\<close> and
  the capital letters of Latin-1 to their small letters, and leaves every other code unit
  below 256 as it is.
\<close>

definition isLower :: "char \<Rightarrow> bool" where
  "isLower c = (c \<in> set ''abcdefghijklmnopqrstuvwxyz'')"

definition isUpper :: "char \<Rightarrow> bool" where
  "isUpper c = (c \<in> set ''ABCDEFGHIJKLMNOPQRSTUVWXYZ'')"

definition isDigit :: "char \<Rightarrow> bool" where
  "isDigit c = (c \<in> set ''0123456789'')"

definition isWordChar :: "char \<Rightarrow> bool" where
  "isWordChar c = (isLower c \<or> isUpper c \<or> isDigit c \<or> c = CHR ''_'')"

definition isLowerAlnum :: "char \<Rightarrow> bool" where
  "isLowerAlnum c = (isLower c \<or> isDigit c)"

definition isSpace :: "char \<Rightarrow> bool" where
  "isSpace c = (c \<in> set [CHR '' '', CHR 0x09, CHR 0x0A, CHR 0x0B, CHR 0x0C, CHR 0x0D, CHR 0xA0])"

definition isLineTerminator :: "char \<Rightarrow> bool" where
  "isLineTerminator c = (c = CHR 0x0A \<or> c = CHR 0x0D)"

definition latin1Upper :: string where
  \<comment> \<open>the capital letters between 0xC0 and 0xDE (0xD7 is the multiplication sign)\<close>
  "latin1Upper =
     [CHR 0xC0, CHR 0xC1, CHR 0xC2, CHR 0xC3, CHR 0xC4, CHR 0xC5, CHR 0xC6, CHR 0xC7,
      CHR 0xC8, CHR 0xC9, CHR 0xCA, CHR 0xCB, CHR 0xCC, CHR 0xCD, CHR 0xCE, CHR 0xCF,
      CHR 0xD0, CHR 0xD1, CHR 0xD2, CHR 0xD3, CHR 0xD4, CHR 0xD5, CHR 0xD6, CHR 0xD8,
      CHR 0xD9, CHR 0xDA, CHR 0xDB, CHR 0xDC, CHR 0xDD, CHR 0xDE]"

definition latin1Lower :: string where
  "latin1Lower =
     [CHR 0xE0, CHR 0xE1, CHR 0xE2, CHR 0xE3, CHR 0xE4, CHR 0xE5, CHR 0xE6, CHR 0xE7,
      CHR 0xE8, CHR 0xE9, CHR 0xEA, CHR 0xEB, CHR 0xEC, CHR 0xED, CHR 0xEE, CHR 0xEF,
      CHR 0xF0, CHR 0xF1, CHR 0xF2, CHR 0xF3, CHR 0xF4, CHR 0xF5, CHR 0xF6, CHR 0xF8,
      CHR 0xF9, CHR 0xFA, CHR 0xFB, CHR 0xFC, CHR 0xFD, CHR 0xFE]"

definition toLowerChar :: "char \<Rightarrow> char" where
  "toLowerChar c =
     (case map_of (zip (''ABCDEFGHIJKLMNOPQRSTUVWXYZ'' @ latin1Upper)
                       (''abcdefghijklmnopqrstuvwxyz'' @ latin1Lower)) c of
        None \<Rightarrow> c | Some d \<Rightarrow> d)"

definition toLowerCase :: "string \<Rightarrow> string" where
  "toLowerCase s = map toLowerChar s"

section \<open>Name normalization (SpellDatabase.normalizeName)\<close>

text \<open>
  The four \<open>replace\<close> calls of \<open>normalizeName\<close>, one function each, applied in the order of
  the source after \<open>toLowerCase\<close>.
\<close>

definition removeApostrophes :: "string \<Rightarrow> string" where
  \<comment> \<open>\<open>.replace(/['']/g, '')\<close>\<close>
  "removeApostrophes s = filter (\<lambda>c. c \<noteq> CHR 0x27) s"

function replaceNonAlnumRuns :: "string \<Rightarrow> string" where
  \<comment> \<open>\<open>.replace(/[^a-z0-9]+/g, '_')\<close>: every maximal run becomes one underscore\<close>
  "replaceNonAlnumRuns [] = []"
| "replaceNonAlnumRuns (c # cs) =
     (if isLowerAlnum c then c # replaceNonAlnumRuns cs
      else CHR ''_'' # replaceNonAlnumRuns (dropWhile (\<lambda>d. \<not> isLowerAlnum d) cs))"
  by pat_completeness auto
termination
  by (relation "measure length") (auto simp: length_dropWhile_le less_Suc_eq_le)

definition dropTrailingUnderscore :: "string \<Rightarrow> string" where
  "dropTrailingUnderscore s = (if s \<noteq> [] \<and> last s = CHR ''_'' then butlast s else s)"

definition trimUnderscores :: "string \<Rightarrow> string" where
  \<comment> \<open>\<open>.replace(/^_|_$/g, '')\<close>: one underscore at the start, and one at the end of what
      follows the first match\<close>
  "trimUnderscores s =
     (case s of
        [] \<Rightarrow> []
      | c # cs \<Rightarrow> if c = CHR ''_'' then dropTrailingUnderscore cs
                 else dropTrailingUnderscore s)"

function collapseUnderscores :: "string \<Rightarrow> string" where
  \<comment> \<open>\<open>.replace(/_+/g, '_')\<close>\<close>
  "collapseUnderscores [] = []"
| "collapseUnderscores (c # cs) =
     (if c = CHR ''_'' then CHR ''_'' # collapseUnderscores (dropWhile (\<lambda>d. d = CHR ''_'') cs)
      else c # collapseUnderscores cs)"
  by pat_completeness auto
termination
  by (relation "measure length") (auto simp: length_dropWhile_le less_Suc_eq_le)

definition normalizeName :: "string \<Rightarrow> string" where
  "normalizeName name =
     collapseUnderscores
       (trimUnderscores (replaceNonAlnumRuns (removeApostrophes (toLowerCase name))))"

text \<open>
  The shape of a normalized key: lower-case letters and digits, separated by single
  underscores. \<open>runsOK\<close> allows an underscore at either end, \<open>isKey\<close> does not.
\<close>

fun runsOK :: "string \<Rightarrow> bool" where
  "runsOK [] = True"
| "runsOK [c] = (isLowerAlnum c \<or> c = CHR ''_'')"
| "runsOK (c # d # cs) =
     (if isLowerAlnum c then runsOK (d # cs)
      else c = CHR ''_'' \<and> isLowerAlnum d \<and> runsOK (d # cs))"

definition isKey :: "string \<Rightarrow> bool" where
  "isKey s = (runsOK s \<and> (s = [] \<or> (hd s \<noteq> CHR ''_'' \<and> last s \<noteq> CHR ''_'')))"

section \<open>Normalization is idempotent\<close>

lemma us_not_alnum [simp]: "\<not> isLowerAlnum (CHR ''_'')"
  by (simp add: isLowerAlnum_def isLower_def isDigit_def)

lemma apos_not_alnum [simp]: "\<not> isLowerAlnum (CHR 0x27)"
  by (simp add: isLowerAlnum_def isLower_def isDigit_def)

lemma toLowerChar_fixes:
  "\<forall>c \<in> set ''abcdefghijklmnopqrstuvwxyz0123456789''. toLowerChar c = c"
  by (simp add: toLowerChar_def latin1Upper_def latin1Lower_def)

lemma toLowerChar_alnum: "isLowerAlnum c \<Longrightarrow> toLowerChar c = c"
proof -
  assume "isLowerAlnum c"
  then have "c \<in> set ''abcdefghijklmnopqrstuvwxyz0123456789''"
    unfolding isLowerAlnum_def isLower_def isDigit_def by simp
  with toLowerChar_fixes show ?thesis by blast
qed

lemma toLowerChar_us [simp]: "toLowerChar (CHR ''_'') = CHR ''_''"
  by (simp add: toLowerChar_def latin1Upper_def latin1Lower_def)

lemma replace_head:
  "replaceNonAlnumRuns s = [] \<longleftrightarrow> s = []"
  by (cases s) auto

lemma replace_hd_alnum:
  "s \<noteq> [] \<Longrightarrow> isLowerAlnum (hd s) \<Longrightarrow> hd (replaceNonAlnumRuns s) = hd s"
  by (cases s) auto

lemma dropWhile_hd: "dropWhile P xs \<noteq> [] \<Longrightarrow> \<not> P (hd (dropWhile P xs))"
  by (metis hd_dropWhile)


lemma runsOK_cons_us:
  "runsOK t \<Longrightarrow> (t = [] \<or> isLowerAlnum (hd t)) \<Longrightarrow> runsOK (CHR ''_'' # t)"
  by (cases t) auto

lemma runsOK_cons_alnum: "isLowerAlnum c \<Longrightarrow> runsOK t \<Longrightarrow> runsOK (c # t)"
  by (cases t) auto

lemma runsOK_replace: "runsOK (replaceNonAlnumRuns s)"
proof (induction s rule: replaceNonAlnumRuns.induct)
  case 1
  show ?case by simp
next
  case (2 c cs)
  show ?case
  proof (cases "isLowerAlnum c")
    case True
    with 2 show ?thesis by (simp add: runsOK_cons_alnum)
  next
    case False
    let ?r = "dropWhile (\<lambda>d. \<not> isLowerAlnum d) cs"
    have ok: "runsOK (replaceNonAlnumRuns ?r)" using 2 False by simp
    have "replaceNonAlnumRuns ?r = [] \<or> isLowerAlnum (hd (replaceNonAlnumRuns ?r))"
    proof (cases "?r = []")
      case True
      have "replaceNonAlnumRuns [] = []" by simp
      with True show ?thesis by (simp only: simp_thms)
    next
      case ne: False
      then have "isLowerAlnum (hd ?r)"
        using dropWhile_hd [of "\<lambda>d. \<not> isLowerAlnum d" cs] by simp
      with ne show ?thesis by (simp add: replace_hd_alnum)
    qed
    with ok have "runsOK (CHR ''_'' # replaceNonAlnumRuns ?r)" by (rule runsOK_cons_us)
    with False show ?thesis by simp
  qed
qed

lemma runsOK_tl: "runsOK (c # cs) \<Longrightarrow> runsOK cs"
  by (cases cs) (auto split: if_splits)

lemma runsOK_butlast: "runsOK s \<Longrightarrow> runsOK (butlast s)"
  by (induction s rule: runsOK.induct) (auto split: if_splits)

lemma runsOK_us_last:
  "runsOK s \<Longrightarrow> s \<noteq> [] \<Longrightarrow> last s = CHR ''_'' \<Longrightarrow>
   butlast s = [] \<or> last (butlast s) \<noteq> CHR ''_''"
  by (induction s rule: runsOK.induct) (auto split: if_splits)

lemma runsOK_us_hd: "runsOK (CHR ''_'' # cs) \<Longrightarrow> cs = [] \<or> hd cs \<noteq> CHR ''_''"
  by (cases cs) auto

lemma hd_butlast: "butlast s \<noteq> [] \<Longrightarrow> hd (butlast s) = hd s"
  by (cases s) auto

lemma isKey_dropTrailing:
  assumes r: "runsOK s" and h: "s = [] \<or> hd s \<noteq> CHR ''_''"
  shows "isKey (dropTrailingUnderscore s)"
proof (cases "s \<noteq> [] \<and> last s = CHR ''_''")
  case True
  then have eq: "dropTrailingUnderscore s = butlast s"
    by (simp add: dropTrailingUnderscore_def)
  have r': "runsOK (butlast s)" using r by (rule runsOK_butlast)
  have "butlast s = [] \<or> (hd (butlast s) \<noteq> CHR ''_'' \<and> last (butlast s) \<noteq> CHR ''_'')"
  proof (cases "butlast s = []")
    case True
    then show ?thesis by (simp only: simp_thms)
  next
    case False
    then have "hd (butlast s) = hd s" by (rule hd_butlast)
    moreover have "hd s \<noteq> CHR ''_''" using h True by blast
    moreover have "last (butlast s) \<noteq> CHR ''_''"
      using runsOK_us_last [OF r] True False by blast
    ultimately show ?thesis by (simp only: simp_thms)
  qed
  with r' show ?thesis unfolding isKey_def eq by (rule conjI)
next
  case False
  then have eq: "dropTrailingUnderscore s = s"
    by (simp only: dropTrailingUnderscore_def if_False)
  have "s = [] \<or> (hd s \<noteq> CHR ''_'' \<and> last s \<noteq> CHR ''_'')"
    using h False by blast
  with r show ?thesis unfolding isKey_def eq by (rule conjI)
qed

lemma isKey_trim:
  assumes r: "runsOK s"
  shows "isKey (trimUnderscores s)"
proof (cases s)
  case Nil
  then show ?thesis by (simp add: trimUnderscores_def isKey_def)
next
  case (Cons c cs)
  show ?thesis
  proof (cases "c = CHR ''_''")
    case True
    have r1: "runsOK (CHR ''_'' # cs)" using r Cons True by (simp only:)
    have "runsOK cs" using r1 by (rule runsOK_tl)
    moreover have "cs = [] \<or> hd cs \<noteq> CHR ''_''" using r1 by (rule runsOK_us_hd)
    ultimately have "isKey (dropTrailingUnderscore cs)" by (rule isKey_dropTrailing)
    moreover have "trimUnderscores s = dropTrailingUnderscore cs"
      using True Cons by (simp add: trimUnderscores_def)
    ultimately show ?thesis by (simp only:)
  next
    case False
    have "s = [] \<or> hd s \<noteq> CHR ''_''" using False Cons by simp
    with r have "isKey (dropTrailingUnderscore s)" by (rule isKey_dropTrailing)
    moreover have "trimUnderscores s = dropTrailingUnderscore s"
      using False Cons by (simp add: trimUnderscores_def)
    ultimately show ?thesis by (simp only:)
  qed
qed

lemma alnum_not_us: "isLowerAlnum c \<Longrightarrow> c \<noteq> CHR ''_''"
  by (rule notI) simp

lemma alnum_not_apos: "isLowerAlnum c \<Longrightarrow> c \<noteq> CHR 0x27"
  by (rule notI) simp

lemma collapse_runsOK: "runsOK s \<Longrightarrow> collapseUnderscores s = s"
proof (induction s rule: runsOK.induct)
  case 1
  show ?case by simp
next
  case (2 c)
  show ?case by simp
next
  case (3 c d cs)
  show ?case
  proof (cases "isLowerAlnum c")
    case True
    then have "c \<noteq> CHR ''_''" by (rule alnum_not_us)
    moreover have "collapseUnderscores (d # cs) = d # cs" using 3 True by simp
    ultimately show ?thesis by simp
  next
    case False
    with 3(3) have c: "c = CHR ''_''" and d: "isLowerAlnum d" and r: "runsOK (d # cs)"
      by simp_all
    from d have "d \<noteq> CHR ''_''" by (rule alnum_not_us)
    moreover have "collapseUnderscores (d # cs) = d # cs" using 3(2) False r by simp
    ultimately show ?thesis using c by simp
  qed
qed

lemma replace_runsOK: "runsOK s \<Longrightarrow> replaceNonAlnumRuns s = s"
proof (induction s rule: runsOK.induct)
  case 1
  show ?case by simp
next
  case (2 c)
  then show ?case by auto
next
  case (3 c d cs)
  show ?case
  proof (cases "isLowerAlnum c")
    case True
    moreover have "replaceNonAlnumRuns (d # cs) = d # cs" using 3 True by simp
    ultimately show ?thesis by simp
  next
    case False
    with 3(3) have c: "c = CHR ''_''" and d: "isLowerAlnum d" and r: "runsOK (d # cs)"
      by simp_all
    have "replaceNonAlnumRuns (d # cs) = d # cs" using 3(2) False r by simp
    then show ?thesis using c d by simp
  qed
qed

lemma runsOK_chars: "runsOK s \<Longrightarrow> c \<in> set s \<Longrightarrow> isLowerAlnum c \<or> c = CHR ''_''"
proof (induction s rule: runsOK.induct)
  case 1
  then show ?case by simp
next
  case (2 e)
  then show ?case by simp
next
  case (3 e d cs)
  have hd: "isLowerAlnum e \<or> e = CHR ''_''" using 3(3) by (cases "isLowerAlnum e") simp_all
  have tl: "runsOK (d # cs)" using 3(3) by (cases "isLowerAlnum e") simp_all
  show ?case
  proof (cases "c = e")
    case True
    with hd show ?thesis by simp
  next
    case False
    with 3(4) have "c \<in> set (d # cs)" by simp
    then show ?thesis using 3(1,2) tl by (cases "isLowerAlnum e") simp_all
  qed
qed

lemma lower_runsOK: "runsOK s \<Longrightarrow> toLowerCase s = s"
proof -
  assume r: "runsOK s"
  have "\<And>c. c \<in> set s \<Longrightarrow> toLowerChar c = c"
    using runsOK_chars [OF r] toLowerChar_alnum toLowerChar_us by blast
  then show ?thesis unfolding toLowerCase_def by (simp add: map_idI)
qed

lemma apos_runsOK: "runsOK s \<Longrightarrow> removeApostrophes s = s"
proof -
  assume r: "runsOK s"
  have "\<And>c. c \<in> set s \<Longrightarrow> c \<noteq> CHR 0x27"
    using runsOK_chars [OF r] alnum_not_apos by fastforce
  then show ?thesis unfolding removeApostrophes_def by simp
qed

lemma trim_isKey: "isKey s \<Longrightarrow> trimUnderscores s = s"
  unfolding isKey_def trimUnderscores_def dropTrailingUnderscore_def
  by (cases s) auto

lemma isKey_normalizeName: "isKey (normalizeName x)"
proof -
  have "isKey (trimUnderscores (replaceNonAlnumRuns (removeApostrophes (toLowerCase x))))"
    by (rule isKey_trim) (rule runsOK_replace)
  then show ?thesis
    unfolding normalizeName_def by (simp add: collapse_runsOK isKey_def)
qed

lemma normalizeName_isKey: "isKey s \<Longrightarrow> normalizeName s = s"
  unfolding normalizeName_def
  by (simp add: isKey_def lower_runsOK apos_runsOK replace_runsOK trim_isKey collapse_runsOK)

text \<open>
  C6. Normalizing twice gives what normalizing once gives, for every input string:
  \<open>normalizeName\<close> is a function of its argument alone, and its result is a key, which
  every step of a second pass leaves as it is.
\<close>

theorem normalizeName_idempotent: "normalizeName (normalizeName x) = normalizeName x"
  by (rule normalizeName_isKey) (rule isKey_normalizeName)

theorem normalizeName_idempotent_witness:
  "normalizeName ''Frost Nova'' = ''frost_nova'' \<and> normalizeName ''frost_nova'' = ''frost_nova''"
proof -
  have "normalizeName ''Frost Nova'' = ''frost_nova''" by code_simp
  with normalizeName_idempotent [of "''Frost Nova''"] show ?thesis by simp
qed

section \<open>The spell database (class SpellDatabase)\<close>

text \<open>
  \<open>SpellInfo\<close> is the interface of the source; \<open>infoId\<close> and \<open>infoName\<close> are its fields
  \<open>id\<close> and \<open>name\<close>. The identifier is the integer that \<open>parseInt\<close> reads (a JavaScript
  number holds it exactly below \<open>2^53\<close>; no operation modelled here reads it).

  The field \<open>spells\<close> is a JavaScript \<open>Map\<close>, which iterates in the order in which its keys
  were first set: an association list with distinct keys, \<open>mapSet\<close> replacing the value of a
  key in place and adding a new key at the end. \<open>spellsById\<close> and \<open>extensionPath\<close> are written
  but never read by the operations below and are left out of the state.
\<close>

record SpellInfo =
  infoId :: int
  infoName :: string
  normalizedName :: string

record SpellDatabase =
  spells :: "(string \<times> SpellInfo) list"
  loaded :: bool

definition newSpellDatabase :: SpellDatabase where
  "newSpellDatabase = \<lparr>spells = [], loaded = False\<rparr>"

fun mapSet :: "'k \<Rightarrow> 'v \<Rightarrow> ('k \<times> 'v) list \<Rightarrow> ('k \<times> 'v) list" where
  "mapSet k v [] = [(k, v)]"
| "mapSet k v (e # m) = (if fst e = k then (k, v) # m else e # mapSet k v m)"

definition mapHas :: "('k \<times> 'v) list \<Rightarrow> 'k \<Rightarrow> bool" where
  "mapHas m k = (k \<in> set (map fst m))"

subsection \<open>Reading the CSV source (loadFromCsv, parseCsvLine)\<close>

definition trim :: "string \<Rightarrow> string" where
  \<comment> \<open>\<open>String.prototype.trim\<close>\<close>
  "trim s = rev (dropWhile isSpace (rev (dropWhile isSpace s)))"

function splitLines :: "string \<Rightarrow> string list" where
  \<comment> \<open>\<open>content.split(/\r?\n/)\<close>\<close>
  "splitLines [] = [[]]"
| "splitLines (c # cs) =
     (if c = CHR 0x0A then [] # splitLines cs
      else if c = CHR 0x0D \<and> take 1 cs = [CHR 0x0A] then [] # splitLines (drop 1 cs)
      else (case splitLines cs of [] \<Rightarrow> [[c]] | l # ls \<Rightarrow> (c # l) # ls))"
  by pat_completeness auto
termination
  by (relation "measure length") auto

fun splitComma :: "string \<Rightarrow> string list" where
  \<comment> \<open>\<open>.split(',')\<close>\<close>
  "splitComma [] = [[]]"
| "splitComma (c # cs) =
     (if c = CHR '','' then [] # splitComma cs
      else (case splitComma cs of [] \<Rightarrow> [[c]] | l # ls \<Rightarrow> (c # l) # ls))"

fun findIndex :: "('a \<Rightarrow> bool) \<Rightarrow> 'a list \<Rightarrow> nat option" where
  \<comment> \<open>\<open>Array.prototype.findIndex\<close>; \<open>None\<close> is the result -1\<close>
  "findIndex P [] = None"
| "findIndex P (x # xs) =
     (if P x then Some 0 else (case findIndex P xs of None \<Rightarrow> None | Some i \<Rightarrow> Some (Suc i)))"

function parseCsvChars :: "string \<Rightarrow> string list \<Rightarrow> string \<Rightarrow> bool \<Rightarrow> string list" where
  \<comment> \<open>the loop of \<open>parseCsvLine\<close> over the characters left, with its three variables\<close>
  "parseCsvChars [] result current inQuotes = result @ [trim current]"
| "parseCsvChars (c # cs) result current inQuotes =
     (if c = CHR 0x22 then
        (if inQuotes \<and> take 1 cs = [CHR 0x22]
         then parseCsvChars (drop 1 cs) result (current @ [CHR 0x22]) inQuotes
         else parseCsvChars cs result current (\<not> inQuotes))
      else if c = CHR '','' \<and> \<not> inQuotes
      then parseCsvChars cs (result @ [trim current]) [] inQuotes
      else parseCsvChars cs result (current @ [c]) inQuotes)"
  by pat_completeness auto
termination
  by (relation "measure (\<lambda>(cs, _, _, _). length cs)") auto

definition parseCsvLine :: "string \<Rightarrow> string list" where
  "parseCsvLine line = parseCsvChars line [] [] False"

definition digitValue :: "char \<Rightarrow> nat" where
  "digitValue c = (case map_of (zip ''0123456789'' [0 ..< 10]) c of None \<Rightarrow> 0 | Some d \<Rightarrow> d)"

definition digitsValue :: "string \<Rightarrow> nat" where
  "digitsValue ds = foldl (\<lambda>n c. 10 * n + digitValue c) 0 ds"

definition parseInt :: "string \<Rightarrow> int option" where
  \<comment> \<open>\<open>parseInt(s, 10)\<close>: leading white space, a sign, then the longest run of digits;
      \<open>None\<close> is NaN\<close>
  "parseInt s =
     (let t = dropWhile isSpace s;
          neg = (take 1 t = ''-'');
          u = (if take 1 t = ''-'' \<or> take 1 t = ''+'' then drop 1 t else t);
          ds = takeWhile isDigit u
      in if ds = [] then None
         else Some (if neg then - int (digitsValue ds) else int (digitsValue ds)))"

definition loadRow :: "nat \<Rightarrow> nat \<Rightarrow> (string \<times> SpellInfo) list \<Rightarrow> string \<Rightarrow> (string \<times> SpellInfo) list" where
  \<comment> \<open>one turn of the loop over the data rows; every \<open>continue\<close> leaves the table as it is\<close>
  "loadRow idIndex nameIndex table rawLine =
     (let line = trim rawLine in
      if line = [] then table
      else
        let columns = parseCsvLine line in
        if length columns \<le> max idIndex nameIndex then table
        else
          let idStr = columns ! idIndex; name = columns ! nameIndex in
          if idStr = [] \<or> name = [] then table
          else
            (case parseInt idStr of
               None \<Rightarrow> table
             | Some n \<Rightarrow>
                 mapSet (normalizeName name)
                   \<lparr>infoId = n, infoName = name, normalizedName = normalizeName name\<rparr> table))"

text \<open>
  What \<open>loadFromCsv\<close> finds at \<open>csvPath\<close>: no file, a file that cannot be read (the
  exception is caught and the result is \<open>false\<close>), or the text of the file.
\<close>

datatype csv_source = Absent | Unreadable | Content string

definition loadFromCsv :: "SpellDatabase \<Rightarrow> csv_source \<Rightarrow> bool \<times> SpellDatabase" where
  "loadFromCsv db src =
     (case src of
        Absent \<Rightarrow> (False, db)
      | Unreadable \<Rightarrow> (False, db)
      | Content content \<Rightarrow>
          let lines = splitLines content in
          if length lines = 0 then (False, db)
          else
            let header = map trim (splitComma (toLowerCase (hd lines)));
                idIndex = findIndex (\<lambda>h. h = ''id'') header;
                nameIndex = findIndex (\<lambda>h. h = ''name'' \<or> h = ''name_lang'') header
            in (case (idIndex, nameIndex) of
                  (Some ii, Some ni) \<Rightarrow>
                    let countBefore = length (spells db);
                        table = foldl (loadRow ii ni) (spells db) (tl lines)
                    in (length table - countBefore > 0, \<lparr>spells = table, loaded = True\<rparr>)
                | _ \<Rightarrow> (False, db)))"

subsection \<open>Queries (isLoaded, isValidSpell)\<close>

definition isLoaded :: "SpellDatabase \<Rightarrow> bool" where
  "isLoaded db = loaded db"

definition isValidSpell :: "SpellDatabase \<Rightarrow> string \<Rightarrow> bool" where
  "isValidSpell db name = (if \<not> loaded db then True else mapHas (spells db) (normalizeName name))"

subsection \<open>Similar names (findSimilar, levenshteinDistance)\<close>

text \<open>
  A JavaScript array is a list of optional elements: \<open>None\<close> is \<open>undefined\<close>, which is what a
  read past the end gives, and a write past the end fills the gap with holes. In a cell of
  the matrix \<open>None\<close> also stands for \<open>NaN\<close>, which is what \<open>undefined + 1\<close> and
  \<open>Math.min\<close> of it give, and which makes both comparisons of \<open>findSimilar\<close> false.
  The source would throw on a cell of a row that does not exist; \<open>getCell\<close> gives
  \<open>None\<close> and \<open>setCell\<close> leaves the matrix as it is there (the invariant \<open>rowsDone\<close> below
  has every row in place from the first loop on).
\<close>

type_synonym matrix = "nat option list option list"

definition arrayGet :: "'a option list \<Rightarrow> nat \<Rightarrow> 'a option" where
  "arrayGet xs i = (if i < length xs then xs ! i else None)"

definition arraySet :: "'a option list \<Rightarrow> nat \<Rightarrow> 'a option \<Rightarrow> 'a option list" where
  "arraySet xs i v =
     (if i < length xs then xs[i := v] else xs @ replicate (i - length xs) None @ [v])"

definition getCell :: "matrix \<Rightarrow> nat \<Rightarrow> nat \<Rightarrow> nat option" where
  "getCell m i j = (case arrayGet m i of None \<Rightarrow> None | Some row \<Rightarrow> arrayGet row j)"

definition setCell :: "matrix \<Rightarrow> nat \<Rightarrow> nat \<Rightarrow> nat option \<Rightarrow> matrix" where
  "setCell m i j v =
     (case arrayGet m i of None \<Rightarrow> m | Some row \<Rightarrow> arraySet m i (Some (arraySet row j v)))"

definition charAt :: "string \<Rightarrow> nat \<Rightarrow> string" where
  "charAt s i = (if i < length s then [s ! i] else [])"

definition plusOne :: "nat option \<Rightarrow> nat option" where
  "plusOne x = map_option Suc x"

definition mathMin3 :: "nat option \<Rightarrow> nat option \<Rightarrow> nat option \<Rightarrow> nat option" where
  "mathMin3 x y z =
     (case (x, y, z) of (Some p, Some q, Some r) \<Rightarrow> Some (min (min p q) r) | _ \<Rightarrow> None)"

definition fillCell :: "string \<Rightarrow> string \<Rightarrow> nat \<Rightarrow> matrix \<Rightarrow> nat \<Rightarrow> matrix" where
  \<comment> \<open>the body of the inner loop, at row \<open>i\<close> and column \<open>j\<close>\<close>
  "fillCell a b i m j =
     (if charAt b (i - 1) = charAt a (j - 1)
      then setCell m i j (getCell m (i - 1) (j - 1))
      else setCell m i j
             (mathMin3 (plusOne (getCell m (i - 1) (j - 1)))
                       (plusOne (getCell m i (j - 1)))
                       (plusOne (getCell m (i - 1) j))))"

definition fillRow :: "string \<Rightarrow> string \<Rightarrow> matrix \<Rightarrow> nat \<Rightarrow> matrix" where
  "fillRow a b m i = foldl (fillCell a b i) m [1 ..< Suc (length a)]"

definition initRows :: "string \<Rightarrow> matrix" where
  \<comment> \<open>\<open>matrix[i] = [i]\<close> for \<open>i = 0 .. b.length\<close>\<close>
  "initRows b = foldl (\<lambda>m i. arraySet m i (Some [Some i])) [] [0 ..< Suc (length b)]"

definition initFirstRow :: "string \<Rightarrow> matrix \<Rightarrow> matrix" where
  \<comment> \<open>\<open>matrix[0][j] = j\<close> for \<open>j = 0 .. a.length\<close>\<close>
  "initFirstRow a m = foldl (\<lambda>m j. setCell m 0 j (Some j)) m [0 ..< Suc (length a)]"

definition levenshteinMatrix :: "string \<Rightarrow> string \<Rightarrow> matrix" where
  "levenshteinMatrix a b =
     foldl (fillRow a b) (initFirstRow a (initRows b)) [1 ..< Suc (length b)]"

definition levenshteinDistance :: "string \<Rightarrow> string \<Rightarrow> nat option" where
  "levenshteinDistance a b =
     (if length a = 0 then Some (length b)
      else if length b = 0 then Some (length a)
      else getCell (levenshteinMatrix a b) (length b) (length a))"

definition isSimilar :: "nat \<Rightarrow> nat option \<Rightarrow> bool" where
  \<comment> \<open>\<open>distance <= maxDistance && distance > 0\<close>\<close>
  "isSimilar maxDistance distance =
     (case distance of None \<Rightarrow> False | Some d \<Rightarrow> d \<le> maxDistance \<and> d > 0)"

definition findSimilar :: "SpellDatabase \<Rightarrow> string \<Rightarrow> nat \<Rightarrow> SpellInfo list" where
  "findSimilar db name maxDistance =
     take 5
       (map snd
          (filter (\<lambda>(spellName, spell).
                     isSimilar maxDistance (levenshteinDistance (normalizeName name) spellName))
                  (spells db)))"

text \<open>
  The distance of the specification: the classic recurrence of the Levenshtein distance on
  the prefixes of the two strings, where an insertion, a deletion and a substitution cost 1
  each and equal last characters cost nothing.
\<close>

function levenshtein :: "'a list \<Rightarrow> 'a list \<Rightarrow> nat" where
  "levenshtein a b =
     (if a = [] then length b
      else if b = [] then length a
      else min (min (levenshtein (butlast a) b + 1) (levenshtein a (butlast b) + 1))
               (levenshtein (butlast a) (butlast b) + (if last a = last b then 0 else 1)))"
  by pat_completeness auto
termination
  by (relation "measure (\<lambda>(a, b). length a + length b)") (auto simp: neq_Nil_conv)

declare levenshtein.simps [simp del]

text \<open>
  The invariant of the two loops of \<open>levenshteinDistance\<close>: \<open>rowOf a b i n\<close> is the first
  \<open>n\<close> cells of a finished row \<open>i\<close>; \<open>rowsDone a b i k m\<close> says that the rows above \<open>i\<close> are
  finished, row \<open>i\<close> is filled up to column \<open>k\<close>, and the rows below are as the first loop
  left them.
\<close>

definition rowOf :: "string \<Rightarrow> string \<Rightarrow> nat \<Rightarrow> nat \<Rightarrow> nat option list" where
  "rowOf a b i n = map (\<lambda>j. Some (levenshtein (take j a) (take i b))) [0 ..< n]"

definition rowsDone :: "string \<Rightarrow> string \<Rightarrow> nat \<Rightarrow> nat \<Rightarrow> matrix \<Rightarrow> bool" where
  "rowsDone a b i k m =
     (length m = Suc (length b) \<and>
      (\<forall>r < i. m ! r = Some (rowOf a b r (Suc (length a)))) \<and>
      m ! i = Some (rowOf a b i k) \<and>
      (\<forall>r. i < r \<and> r \<le> length b \<longrightarrow> m ! r = Some [Some r]))"

section \<open>The spell database: fail-open validation\<close>

lemma isValidSpell_not_loaded: "\<not> isLoaded db \<Longrightarrow> isValidSpell db name"
  by (simp add: isValidSpell_def isLoaded_def)

lemma loadFromCsv_Absent: "loadFromCsv db Absent = (False, db)"
  by (simp add: loadFromCsv_def)

lemmas csv_eval =
  loadFromCsv_def newSpellDatabase_def toLowerCase_def toLowerChar_def latin1Upper_def
  latin1Lower_def trim_def isSpace_def

text \<open>
  C1. A source that holds the header row and no data row: \<open>loadFromCsv\<close> returns \<open>false\<close>
  (nothing was loaded) and sets the flag \<open>loaded\<close> all the same, after which \<open>isValidSpell\<close>
  looks names up in the empty table and rejects \<open>fireball\<close>. So after a load that failed,
  and no load that succeeded, \<open>isValidSpell\<close> is not fail-open.
\<close>

theorem isValidSpell_after_empty_load:
  "loadFromCsv newSpellDatabase (Content ''id,name'') = (False, \<lparr>spells = [], loaded = True\<rparr>)
   \<and> isValidSpell \<lparr>spells = [], loaded = True\<rparr> ''fireball'' = False"
  by (simp add: csv_eval isValidSpell_def mapHas_def)

section \<open>The distance of levenshteinDistance is the Levenshtein distance\<close>

lemma lev_Nil1 [simp]: "levenshtein [] b = length b"
  by (simp add: levenshtein.simps)
lemma lev_Nil2 [simp]: "levenshtein a [] = length a"
  by (simp add: levenshtein.simps)
lemma lev_snoc:
  "levenshtein (a @ [x]) (b @ [y]) =
     min (min (levenshtein a (b @ [y]) + 1) (levenshtein (a @ [x]) b + 1))
         (levenshtein a b + (if x = y then 0 else 1))"
  by (subst levenshtein.simps) simp

lemma lev_del1: "levenshtein (a @ [x]) b \<le> levenshtein a b + 1"
proof (cases b rule: rev_cases)
  case Nil
  then show ?thesis by simp
next
  case (snoc b' y)
  then show ?thesis by (simp add: lev_snoc)
qed

lemma lev_del2: "levenshtein a (b @ [y]) \<le> levenshtein a b + 1"
proof (cases a rule: rev_cases)
  case Nil
  then show ?thesis by simp
next
  case (snoc a' x)
  then show ?thesis by (simp add: lev_snoc)
qed

lemma lev_lip2: "levenshtein a b \<le> levenshtein a (b @ [y]) + 1"
proof (induction a arbitrary: b y rule: rev_induct)
  case Nil
  show ?case by simp
next
  case (snoc x a)
  have "levenshtein (a @ [x]) b \<le> levenshtein a b + 1" by (rule lev_del1)
  moreover have "levenshtein a b \<le> levenshtein a (b @ [y]) + 1" by (rule snoc)
  ultimately show ?case by (simp add: lev_snoc)
qed

lemma lev_lip1: "levenshtein a b \<le> levenshtein (a @ [x]) b + 1"
proof (induction b arbitrary: a x rule: rev_induct)
  case Nil
  show ?case by simp
next
  case (snoc y b)
  have "levenshtein a (b @ [y]) \<le> levenshtein a b + 1" by (rule lev_del2)
  moreover have "levenshtein a b \<le> levenshtein (a @ [x]) b + 1" by (rule snoc)
  ultimately show ?case by (simp add: lev_snoc)
qed

lemma lev_snoc_eq: "levenshtein (a @ [x]) (b @ [x]) = levenshtein a b"
  using lev_lip1 [of a b x] lev_lip2 [of a b x] lev_lip2[of a "b" x]  lev_lip1 [of a "b" x]
  by (simp add: lev_snoc)

lemma lev_snoc_neq:
  "x \<noteq> y \<Longrightarrow> levenshtein (a @ [x]) (b @ [y]) =
     min (min (levenshtein a b + 1) (levenshtein (a @ [x]) b + 1)) (levenshtein a (b @ [y]) + 1)"
  by (simp add: lev_snoc)

lemma foldl_upt_Suc: "lo \<le> hi \<Longrightarrow> foldl f m [lo ..< Suc hi] = f (foldl f m [lo ..< hi]) hi"
  by simp

lemma foldl_upt_inv:
  assumes "lo \<le> hi" and "P lo m"
    and "\<And>k m. lo \<le> k \<Longrightarrow> k < hi \<Longrightarrow> P k m \<Longrightarrow> P (Suc k) (f m k)"
  shows "P hi (foldl f m [lo ..< hi])"
  using assms(1,3)
proof (induction hi)
  case 0
  with assms(2) show ?case by simp
next
  case (Suc hi)
  show ?case
  proof (cases "lo = Suc hi")
    case True
    with assms(2) show ?thesis by simp
  next
    case False
    with Suc.prems(1) have le: "lo \<le> hi" by simp
    have "P hi (foldl f m [lo ..< hi])"
      by (rule Suc.IH [OF le]) (simp add: Suc.prems(2))
    then have "P (Suc hi) (f (foldl f m [lo ..< hi]) hi)"
      using le by (intro Suc.prems(2)) simp_all
    then show ?thesis using le by simp
  qed
qed

lemma initRows_eq: "initRows b = map (\<lambda>i. Some [Some i]) [0 ..< Suc (length b)]"
proof -
  have "foldl (\<lambda>m i. arraySet m i (Some [Some i])) [] [0 ..< n] = map (\<lambda>i. Some [Some i]) [0 ..< n]" for n :: nat
    by (induction n) (simp_all add: arraySet_def)
  then show ?thesis unfolding initRows_def .
qed

lemma rowOf_Suc:
  "rowOf a b i (Suc n) = rowOf a b i n @ [Some (levenshtein (take n a) (take i b))]"
  by (simp add: rowOf_def)

lemma rowOf_first: "i \<le> length b \<Longrightarrow> rowOf a b i (Suc 0) = [Some i]"
  by (simp add: rowOf_def)

lemma rowOf_zero: "n \<le> Suc (length a) \<Longrightarrow> rowOf a b 0 n = map Some [0 ..< n]"
  by (simp add: rowOf_def)

lemma length_rowOf [simp]: "length (rowOf a b i n) = n"
  by (simp add: rowOf_def)

lemma rowOf_nth: "j < n \<Longrightarrow> rowOf a b i n ! j = Some (levenshtein (take j a) (take i b))"
  by (simp add: rowOf_def)


lemma setCell_append:
  assumes "i < length m" and "m ! i = Some row" and "j = length row"
  shows "setCell m i j v = m[i := Some (row @ [v])]"
  using assms by (simp add: setCell_def arrayGet_def arraySet_def)

lemma getCell_nth:
  assumes "i < length m" and "m ! i = Some row" and "j < length row"
  shows "getCell m i j = row ! j"
  using assms by (simp add: getCell_def arrayGet_def)


lemma initRows_nth: "r \<le> length b \<Longrightarrow> initRows b ! r = Some [Some r]"
  unfolding initRows_eq by (simp add: nth_append del: upt_Suc)

lemma length_initRows: "length (initRows b) = Suc (length b)"
  unfolding initRows_eq by simp

lemma initFirstRow_done: "rowsDone a b 0 (Suc (length a)) (initFirstRow a (initRows b))"
proof -
  let ?f = "\<lambda>m j. setCell m 0 j (Some j)"
  have f0: "?f (initRows b) 0 = initRows b"
    by (simp add: setCell_def arrayGet_def arraySet_def length_initRows initRows_nth list_update_same_conv)
  have start: "rowsDone a b 0 1 (initRows b)"
    by (simp add: rowsDone_def length_initRows initRows_nth rowOf_first)
  have step: "rowsDone a b 0 (Suc k) (?f m k)"
    if "1 \<le> k" "k < Suc (length a)" "rowsDone a b 0 k m" for k m
  proof -
    from that(3) have len: "0 < length m" and row: "m ! 0 = Some (rowOf a b 0 k)"
      and rest: "\<forall>r. 0 < r \<and> r \<le> length b \<longrightarrow> m ! r = Some [Some r]"
      and l: "length m = Suc (length b)"
      by (simp_all add: rowsDone_def)
    have "?f m k = m[0 := Some (rowOf a b 0 k @ [Some k])]"
      using len row by (intro setCell_append) simp_all
    moreover have "rowOf a b 0 (Suc k) = rowOf a b 0 k @ [Some k]"
      using that(2) by (simp add: rowOf_Suc)
    ultimately show ?thesis using l rest len by (simp add: rowsDone_def)
  qed
  have "rowsDone a b 0 (Suc (length a)) (foldl ?f (initRows b) [1 ..< Suc (length a)])"
    by (rule foldl_upt_inv [where P = "rowsDone a b 0"]) (use start step in simp_all)
  moreover have "[0 ..< Suc (length a)] = 0 # [1 ..< Suc (length a)]"
    by (simp add: upt_conv_Cons del: upt_Suc)
  ultimately show ?thesis by (simp only: initFirstRow_def foldl.simps f0)
qed

lemma fillCell_step:
  assumes i: "i = Suc i'" "i \<le> length b" and k: "k = Suc k'" "k < Suc (length a)"
    and inv: "rowsDone a b i k m"
  shows "rowsDone a b i (Suc k) (fillCell a b i m k)"
proof -
  from inv have l: "length m = Suc (length b)"
    and cur: "m ! i = Some (rowOf a b i k)"
    and dn: "\<forall>r < i. m ! r = Some (rowOf a b r (Suc (length a)))"
    and rest: "\<forall>r. i < r \<and> r \<le> length b \<longrightarrow> m ! r = Some [Some r]"
    by (simp_all add: rowsDone_def)
  have prev: "m ! i' = Some (rowOf a b i' (Suc (length a)))" using dn i by simp
  have li: "i < length m" "i' < length m" using l i by simp_all
  have g1: "getCell m i' k' = Some (levenshtein (take k' a) (take i' b))"
    using k by (subst getCell_nth [OF li(2) prev]) (simp_all add: rowOf_nth)
  have g2: "getCell m i k' = Some (levenshtein (take k' a) (take i b))"
    using k by (subst getCell_nth [OF li(1) cur]) (simp_all add: rowOf_nth)
  have g3: "getCell m i' k = Some (levenshtein (take k a) (take i' b))"
    using k by (subst getCell_nth [OF li(2) prev]) (simp_all add: rowOf_nth)
  have ta: "take k a = take k' a @ [a ! k']"
    using k by (simp add: take_Suc_conv_app_nth)
  have tb: "take i b = take i' b @ [b ! i']"
    using i by (simp add: take_Suc_conv_app_nth)
  have ca: "charAt a k' = [a ! k']" using k by (simp add: charAt_def)
  have cb: "charAt b i' = [b ! i']" using i by (simp add: charAt_def)
  have set: "setCell m i k v = m[i := Some (rowOf a b i k @ [v])]" for v
    using li(1) cur by (intro setCell_append) simp_all
  have fc: "fillCell a b i m k =
     (if b ! i' = a ! k' then setCell m i k (getCell m i' k')
      else setCell m i k (mathMin3 (plusOne (getCell m i' k')) (plusOne (getCell m i k'))
                            (plusOne (getCell m i' k))))"
    unfolding fillCell_def i k by (simp add: ca [unfolded k] cb [unfolded i])
  have val: "fillCell a b i m k = m[i := Some (rowOf a b i k @ [Some (levenshtein (take k a) (take i b))])]"
  proof (cases "b ! i' = a ! k'")
    case True
    have "levenshtein (take k a) (take i b) = levenshtein (take k' a) (take i' b)"
      unfolding ta tb True by (rule lev_snoc_eq)
    then show ?thesis using True by (simp add: fc set g1)
  next
    case False
    then have ne: "a ! k' \<noteq> b ! i'" by simp
    have "levenshtein (take k a) (take i b) =
       min (min (levenshtein (take k' a) (take i' b) + 1)
                (levenshtein (take k a) (take i' b) + 1))
           (levenshtein (take k' a) (take i b) + 1)"
      using lev_snoc_neq [OF ne, of "take k' a" "take i' b"]
      by (simp only: ta [symmetric] tb [symmetric])
    also have "\<dots> = min (min (Suc (levenshtein (take k' a) (take i' b)))
                (Suc (levenshtein (take k' a) (take i b))))
           (Suc (levenshtein (take k a) (take i' b)))"
      by simp
    finally show ?thesis
      using False by (simp only: fc if_False set g1 g2 g3 mathMin3_def plusOne_def option.map prod.case option.case)
  qed
  show ?thesis
    unfolding val using l dn rest i cur by (simp add: rowsDone_def rowOf_Suc)
qed

lemma fillRow_step:
  assumes i: "i = Suc i'" "i \<le> length b" and inv: "rowsDone a b i' (Suc (length a)) m"
  shows "rowsDone a b i (Suc (length a)) (fillRow a b m i)"
proof -
  from inv have l: "length m = Suc (length b)"
    and cur: "m ! i' = Some (rowOf a b i' (Suc (length a)))"
    and dn: "\<forall>r < i'. m ! r = Some (rowOf a b r (Suc (length a)))"
    and rest: "\<forall>r. i' < r \<and> r \<le> length b \<longrightarrow> m ! r = Some [Some r]"
    by (simp_all add: rowsDone_def)
  have "\<forall>r < i. m ! r = Some (rowOf a b r (Suc (length a)))"
    using dn cur i(1) by (simp add: less_Suc_eq)
  moreover have "m ! i = Some (rowOf a b i 1)"
    using rest i by (simp add: rowOf_first)
  moreover have "\<forall>r. i < r \<and> r \<le> length b \<longrightarrow> m ! r = Some [Some r]"
    using rest i by simp
  ultimately have start: "rowsDone a b i 1 m"
    using l by (simp add: rowsDone_def)
  have step: "rowsDone a b i (Suc k) (fillCell a b i m' k)"
    if "1 \<le> k" "k < Suc (length a)" "rowsDone a b i k m'" for k m'
  proof -
    from that(1) obtain k' where "k = Suc k'" by (cases k) simp_all
    then show ?thesis using i that(2,3) by (intro fillCell_step)
  qed
  show ?thesis
    unfolding fillRow_def
    by (rule foldl_upt_inv [where P = "rowsDone a b i"]) (use start step in simp_all)
qed

lemma levenshteinMatrix_done:
  "rowsDone a b (length b) (Suc (length a)) (levenshteinMatrix a b)"
proof -
  have step: "rowsDone a b (Suc i - 1) (Suc (length a)) (fillRow a b m i)"
    if "1 \<le> i" "i < Suc (length b)" "rowsDone a b (i - 1) (Suc (length a)) m" for i m
  proof -
    from that(1) obtain i' where "i = Suc i'" by (cases i) simp_all
    then show ?thesis using that(2,3) fillRow_step [of i i' b a m] by simp
  qed
  have "rowsDone a b (Suc (length b) - 1) (Suc (length a)) (levenshteinMatrix a b)"
    unfolding levenshteinMatrix_def
    by (rule foldl_upt_inv [where P = "\<lambda>i. rowsDone a b (i - 1) (Suc (length a))"])
       (use initFirstRow_done step in simp_all)
  then show ?thesis by simp
qed

lemma levenshteinDistance_correct: "levenshteinDistance a b = Some (levenshtein a b)"
proof -
  have "getCell (levenshteinMatrix a b) (length b) (length a) = Some (levenshtein a b)"
    using levenshteinMatrix_done [of a b]
    by (simp add: rowsDone_def getCell_def arrayGet_def rowOf_nth)
  then show ?thesis by (simp add: levenshteinDistance_def)
qed

lemma isSimilar_levenshtein:
  "isSimilar maxDistance (levenshteinDistance a b) =
     (0 < levenshtein a b \<and> levenshtein a b \<le> maxDistance)"
  by (auto simp: isSimilar_def levenshteinDistance_correct)

text \<open>
  The entries that the specification asks for: those whose key is at a Levenshtein
  distance \<open>d\<close> from the normalized input with \<open>0 < d \<le> maxDistance\<close>.
\<close>

definition withinDistance :: "string \<Rightarrow> nat \<Rightarrow> string \<times> SpellInfo \<Rightarrow> bool" where
  "withinDistance name maxDistance entry =
     (0 < levenshtein (normalizeName name) (fst entry) \<and>
      levenshtein (normalizeName name) (fst entry) \<le> maxDistance)"

text \<open>
  C4. \<open>findSimilar\<close> returns the records of the entries of the table whose key is at a
  Levenshtein distance \<open>d\<close> from the normalized input with \<open>0 < d \<le> maxDistance\<close>, in the
  order of the table, cut after the fifth. In particular, when no more than five entries
  qualify, an entry at distance 1 is returned, and when no entry qualifies the result is
  empty. (\<open>maxDistance\<close> is any bound; the default of the source is 2.)
\<close>

theorem findSimilar_levenshtein:
  "findSimilar db name maxDistance =
     take 5 (map snd (filter (withinDistance name maxDistance) (spells db)))
   \<and> (length (filter (withinDistance name maxDistance) (spells db)) \<le> 5 \<and>
      entry \<in> set (spells db) \<and> levenshtein (normalizeName name) (fst entry) = 1 \<and>
      1 \<le> maxDistance \<longrightarrow> snd entry \<in> set (findSimilar db name maxDistance))
   \<and> (list_all (\<lambda>e. \<not> withinDistance name maxDistance e) (spells db) \<longrightarrow>
      findSimilar db name maxDistance = [])"
proof -
  have flt: "filter (\<lambda>(spellName, spell).
                 isSimilar maxDistance (levenshteinDistance (normalizeName name) spellName))
               (spells db) = filter (withinDistance name maxDistance) (spells db)"
    by (rule filter_cong) (auto simp: isSimilar_levenshtein withinDistance_def)
  have eq: "findSimilar db name maxDistance =
     take 5 (map snd (filter (withinDistance name maxDistance) (spells db)))"
    unfolding findSimilar_def flt ..
  have "snd entry \<in> set (findSimilar db name maxDistance)"
    if "length (filter (withinDistance name maxDistance) (spells db)) \<le> 5"
      "entry \<in> set (spells db)" "levenshtein (normalizeName name) (fst entry) = 1"
      "1 \<le> maxDistance"
  proof -
    have "entry \<in> set (filter (withinDistance name maxDistance) (spells db))"
      using that(2,3,4) by (simp add: withinDistance_def)
    then have "snd entry \<in> set (map snd (filter (withinDistance name maxDistance) (spells db)))"
      by (simp only: set_map) (rule imageI)
    then show ?thesis using that(1) by (simp add: eq)
  qed
  moreover have "findSimilar db name maxDistance = []"
    if "list_all (\<lambda>e. \<not> withinDistance name maxDistance e) (spells db)"
  proof -
    have "filter (withinDistance name maxDistance) (spells db) = []"
      using that by (simp add: filter_empty_conv list_all_iff)
    then show ?thesis by (simp add: eq)
  qed
  ultimately show ?thesis using eq by blast
qed

text \<open>A table that holds \<open>Frost Nova\<close>, asked for \<open>Frost Nov\<close> and for \<open>xyz\<close>.\<close>

definition frostNova :: SpellInfo where
  "frostNova = \<lparr>infoId = 122, infoName = ''Frost Nova'', normalizedName = ''frost_nova''\<rparr>"

lemma ld1: "levenshteinDistance ''frost_nov'' ''frost_nova'' = Some 1"
  by code_simp
lemma ld2: "levenshteinDistance ''xyz'' ''frost_nova'' = Some 10"
  by code_simp
lemma n1: "normalizeName ''Frost Nov'' = ''frost_nov''" by code_simp
lemma n2: "normalizeName ''xyz'' = ''xyz''" by code_simp

theorem findSimilar_levenshtein_witness:
  "findSimilar \<lparr>spells = [(''frost_nova'', frostNova)], loaded = True\<rparr> ''Frost Nov'' 2 = [frostNova]
   \<and> findSimilar \<lparr>spells = [(''frost_nova'', frostNova)], loaded = True\<rparr> ''xyz'' 2 = []"
proof -
  let ?db = "\<lparr>spells = [(''frost_nova'', frostNova)], loaded = True\<rparr>"
  have l1: "levenshtein ''frost_nov'' ''frost_nova'' = 1"
    using levenshteinDistance_correct [of "''frost_nov''" "''frost_nova''"] ld1 by simp
  have l2: "levenshtein ''xyz'' ''frost_nova'' = 10"
    using levenshteinDistance_correct [of "''xyz''" "''frost_nova''"] ld2 by simp
  have w1: "withinDistance ''Frost Nov'' 2 (''frost_nova'', frostNova)"
    by (simp add: withinDistance_def n1 l1)
  have w2: "\<not> withinDistance ''xyz'' 2 (''frost_nova'', frostNova)"
    by (simp add: withinDistance_def n2 l2)
  have "snd (''frost_nova'', frostNova) \<in> set (findSimilar ?db ''Frost Nov'' 2)"
    using findSimilar_levenshtein [of ?db "''Frost Nov''" 2 "(''frost_nova'', frostNova)"] w1 n1 l1
    by simp
  moreover have "findSimilar ?db ''Frost Nov'' 2 = take 5 (map snd (filter (withinDistance ''Frost Nov'' 2) (spells ?db)))"
    using findSimilar_levenshtein [of ?db "''Frost Nov''" 2 "(''frost_nova'', frostNova)"] by blast
  ultimately have a: "findSimilar ?db ''Frost Nov'' 2 = [frostNova]" using w1 by simp
  have b: "findSimilar ?db ''xyz'' 2 = []"
    using findSimilar_levenshtein [of ?db "''xyz''" 2 "(''frost_nova'', frostNova)"] w2 by simp
  from a b show ?thesis by (rule conjI)
qed
section \<open>The symbol table builder\<close>

text \<open>
  A document is the list of its lines (\<open>document.lineAt(n).text\<close>). A JavaScript \<open>Set\<close> of
  strings is the list of its members in the order in which they were added.

  \<open>collectDefinedLists\<close>, \<open>collectDefinedConfigVars\<close> and \<open>collectDefinedVariables\<close> (and
  \<open>collectVariables\<close> of the completion provider, which is \<open>collectDefinedVariables\<close> word for
  word) are the same loop over the lines, with the name of the section and the pattern of
  an entry as the only differences: \<open>scanStep\<close> is one turn of that loop on the pair of the
  flag and the set.
\<close>

definition setAdd :: "string \<Rightarrow> string list \<Rightarrow> string list" where
  "setAdd x xs = (if x \<in> set xs then xs else xs @ [x])"

definition isSectionHeader :: "string \<Rightarrow> string \<Rightarrow> bool" where
  \<comment> \<open>\<open>/^lists:\s*$/\<close>, \<open>/^config:\s*$/\<close>, \<open>/^variables:\s*$/\<close>\<close>
  "isSectionHeader sect text =
     (prefix (sect @ '':'') text \<and> list_all isSpace (drop (length sect + 1) text))"

definition isRootKey :: "string \<Rightarrow> bool" where
  \<comment> \<open>\<open>/^[a-z_]+:\s*$/.test(text) && !text.startsWith(' ')\<close>\<close>
  "isRootKey text =
     (let w = takeWhile (\<lambda>c. isLower c \<or> c = CHR ''_'') text in
      w \<noteq> [] \<and> prefix '':'' (drop (length w) text)
      \<and> list_all isSpace (drop (length w + 1) text) \<and> \<not> prefix '' '' text)"

definition indentedKey :: "string \<Rightarrow> (string \<times> string) option" where
  \<comment> \<open>\<open>/^\s{2}(\w+):/\<close>: the name captured and what follows the colon\<close>
  "indentedKey text =
     (if length text \<ge> 2 \<and> isSpace (text ! 0) \<and> isSpace (text ! 1) then
        (let w = takeWhile isWordChar (drop 2 text) in
         if w \<noteq> [] \<and> prefix '':'' (drop (2 + length w) text)
         then Some (w, drop (2 + length w + 1) text) else None)
      else None)"

definition listEntry :: "string \<Rightarrow> string option" where
  \<comment> \<open>\<open>text.match(/^\s{2}(\w+):\s*$/)\<close>\<close>
  "listEntry text =
     (case indentedKey text of
        None \<Rightarrow> None
      | Some (w, rest) \<Rightarrow> if list_all isSpace rest then Some w else None)"

definition variableEntry :: "string \<Rightarrow> string option" where
  \<comment> \<open>\<open>text.match(/^\s{2}(\w+):/)\<close>\<close>
  "variableEntry text = map_option fst (indentedKey text)"

definition scanStep ::
  "string \<Rightarrow> (string \<Rightarrow> string option) \<Rightarrow> bool \<times> string list \<Rightarrow> string \<Rightarrow> bool \<times> string list" where
  "scanStep sect entry st text =
     (if isSectionHeader sect text then (True, snd st)
      else if fst st \<and> isRootKey text then (False, snd st)
      else if fst st then
        (case entry text of None \<Rightarrow> st | Some name \<Rightarrow> (fst st, setAdd name (snd st)))
      else st)"

definition scanSection :: "string \<Rightarrow> (string \<Rightarrow> string option) \<Rightarrow> string list \<Rightarrow> string list" where
  "scanSection sect entry document = snd (foldl (scanStep sect entry) (False, []) document)"

definition collectDefinedLists :: "string list \<Rightarrow> string list" where
  "collectDefinedLists document = scanSection ''lists'' listEntry document"

definition collectDefinedConfigVars :: "string list \<Rightarrow> string list" where
  "collectDefinedConfigVars document = scanSection ''config'' listEntry document"

definition collectDefinedVariables :: "string list \<Rightarrow> string list" where
  "collectDefinedVariables document = scanSection ''variables'' variableEntry document"

text \<open>
  A root-level key as the specification describes it: an identifier of lower-case letters
  and underscores, a colon, and nothing but white space after it.
\<close>

definition rootKeyLine :: "string \<Rightarrow> string \<Rightarrow> string" where
  "rootKeyLine ident ws = ident @ '':'' @ ws"

definition isIdent :: "string \<Rightarrow> bool" where
  "isIdent ident = (ident \<noteq> [] \<and> list_all (\<lambda>c. isLower c \<or> c = CHR ''_'') ident)"

section \<open>A root-level key ends a section\<close>

lemma colon_not_lower [simp]: "\<not> isLower CHR '':''"
  by (simp add: isLower_def)

lemma space_not_ident: "isSpace c \<Longrightarrow> \<not> (isLower c \<or> c = CHR ''_'')"
  by (auto simp: isSpace_def isLower_def)

lemma takeWhile_ident:
  "list_all P ident \<Longrightarrow> \<not> P c \<Longrightarrow> takeWhile P (ident @ c # rest) = ident"
  by (induction ident) simp_all

lemma isRootKey_rootKeyLine:
  assumes "isIdent ident" "list_all isSpace ws"
  shows "isRootKey (rootKeyLine ident ws)"
proof -
  let ?P = "\<lambda>c. isLower c \<or> c = CHR ''_''"
  have tw: "takeWhile ?P (ident @ CHR '':'' # ws) = ident"
    using assms(1) by (intro takeWhile_ident) (simp_all add: isIdent_def)
  obtain c cs where id: "ident = c # cs" and c: "?P c"
    using assms(1) by (cases ident) (auto simp: isIdent_def)
  have "c \<noteq> CHR '' ''" using c by (auto simp: isLower_def)
  then show ?thesis
    using assms tw by (simp add: isRootKey_def rootKeyLine_def Let_def id isIdent_def)
qed

lemma isSectionHeader_rootKeyLine:
  assumes "isIdent ident" "isSectionHeader sect (rootKeyLine ident ws)" "isIdent sect"
  shows "ident = sect"
proof -
  have "prefix (sect @ '':'') (ident @ '':'' @ ws)"
    using assms(2) by (simp add: isSectionHeader_def rootKeyLine_def)
  then obtain t where eq: "ident @ '':'' @ ws = sect @ '':'' @ t"
    by (auto simp: prefix_def)
  let ?P = "\<lambda>c. isLower c \<or> c = CHR ''_''"
  have "takeWhile ?P (ident @ CHR '':'' # ws) = ident"
    using assms(1) by (intro takeWhile_ident) (simp_all add: isIdent_def)
  moreover have "takeWhile ?P (sect @ CHR '':'' # t) = sect"
    using assms(3) by (intro takeWhile_ident) (simp_all add: isIdent_def)
  ultimately show ?thesis using eq by simp
qed

lemma foldl_scanStep_idle:
  assumes "list_all (\<lambda>l. \<not> isSectionHeader sect l) post"
  shows "foldl (scanStep sect entry) (False, acc) post = (False, acc)"
  using assms by (induction post) (simp_all add: scanStep_def)

lemma scanStep_rootKey:
  assumes "isRootKey l" "\<not> isSectionHeader sect l"
  shows "scanStep sect entry st l = (False, snd st)"
  using assms by (cases st) (simp add: scanStep_def)

lemma scanSection_rootKey:
  assumes "isRootKey l" "\<not> isSectionHeader sect l"
    and "list_all (\<lambda>l. \<not> isSectionHeader sect l) post"
  shows "scanSection sect entry (pre @ [l] @ post) = scanSection sect entry pre"
  using assms
  by (simp add: scanSection_def scanStep_rootKey foldl_scanStep_idle)

lemma isIdent_sections: "isIdent ''lists''" "isIdent ''config''" "isIdent ''variables''"
  by (simp_all add: isIdent_def isLower_def)

text \<open>
  C8. For each of the three sections: a line that is an identifier of lower-case letters
  and underscores followed by a colon (and white space at most), other than the header of
  the section itself, ends the section. The lines that follow it add nothing to the set of
  the section, as long as none of them is the header of the section again: the set of the
  whole document is the set of the lines before that key.
\<close>

theorem rootKey_ends_section:
  assumes "isIdent ident" and "list_all isSpace ws"
  shows "(ident \<noteq> ''lists'' \<and> list_all (\<lambda>l. \<not> isSectionHeader ''lists'' l) post \<longrightarrow>
            collectDefinedLists (pre @ [rootKeyLine ident ws] @ post) = collectDefinedLists pre)
       \<and> (ident \<noteq> ''config'' \<and> list_all (\<lambda>l. \<not> isSectionHeader ''config'' l) post \<longrightarrow>
            collectDefinedConfigVars (pre @ [rootKeyLine ident ws] @ post) = collectDefinedConfigVars pre)
       \<and> (ident \<noteq> ''variables'' \<and> list_all (\<lambda>l. \<not> isSectionHeader ''variables'' l) post \<longrightarrow>
            collectDefinedVariables (pre @ [rootKeyLine ident ws] @ post) = collectDefinedVariables pre)"
proof -
  have rk: "isRootKey (rootKeyLine ident ws)" using assms by (rule isRootKey_rootKeyLine)
  have nh: "\<not> isSectionHeader sect (rootKeyLine ident ws)"
    if "isIdent sect" "ident \<noteq> sect" for sect
    using isSectionHeader_rootKeyLine [OF assms(1) _ that(1)] that(2) by blast
  show ?thesis
    unfolding collectDefinedLists_def collectDefinedConfigVars_def collectDefinedVariables_def
    using scanSection_rootKey [OF rk nh] isIdent_sections by blast
qed

theorem rootKey_ends_section_witness:
  "collectDefinedLists [''lists:'', ''  a:'', ''actions:'', ''  b:''] = [''a'']
   \<and> collectDefinedConfigVars [''config:'', ''  a:'', ''actions:'', ''  b:''] = [''a'']
   \<and> collectDefinedVariables [''variables:'', ''  a: 1'', ''actions:'', ''  b: 2''] = [''a'']"
proof -
  have i: "isIdent ''actions''" by (simp add: isIdent_def isLower_def)
  have w: "list_all isSpace []" by simp
  have l: "list_all (\<lambda>l. \<not> isSectionHeader ''lists'' l) [''  b:'']"
    and c: "list_all (\<lambda>l. \<not> isSectionHeader ''config'' l) [''  b:'']"
    and v: "list_all (\<lambda>l. \<not> isSectionHeader ''variables'' l) [''  b: 2'']"
    by (simp_all add: isSectionHeader_def)
  have r: "rootKeyLine ''actions'' [] = ''actions:''" by (simp add: rootKeyLine_def)
  have "collectDefinedLists [''lists:'', ''  a:''] = [''a'']"
    "collectDefinedConfigVars [''config:'', ''  a:''] = [''a'']"
    "collectDefinedVariables [''variables:'', ''  a: 1''] = [''a'']"
    by code_simp+
  then show ?thesis
    using rootKey_ends_section [OF i w, of "[''  b:'']" "[''lists:'', ''  a:'']"]
      rootKey_ends_section [OF i w, of "[''  b:'']" "[''config:'', ''  a:'']"]
      rootKey_ends_section [OF i w, of "[''  b: 2'']" "[''variables:'', ''  a: 1'']"] l c v
    by (simp add: r)
qed

text \<open>
  A root-level key that carries a value on its own line is no such line (the pattern of the
  source asks for the end of the line after the colon): the section goes on after it.
\<close>

lemma key_with_value_keeps_section:
  "collectDefinedLists [''lists:'', ''  a:'', ''name: x'', ''  b:''] = [''a'', ''b'']"
  by code_simp

text \<open>
  An entry of a section is in the set: after the header \<open>h\<close> of the section and lines
  \<open>mid\<close> none of which is a root-level key, a line \<open>l\<close> that the entry pattern accepts adds
  its name, and no later line removes it.
\<close>

lemma scanStep_fst_keep:
  assumes "\<not> isRootKey l"
  shows "fst (scanStep sect entry (True, acc) l) = True"
  using assms by (simp add: scanStep_def split: option.split)

lemma foldl_scanStep_inside:
  assumes "list_all (\<lambda>l. \<not> isRootKey l) mid"
  shows "fst (foldl (scanStep sect entry) (True, acc) mid) = True"
  using assms
proof (induction mid arbitrary: acc)
  case Nil
  show ?case by simp
next
  case (Cons l mid)
  obtain acc' where "scanStep sect entry (True, acc) l = (True, acc')"
    using scanStep_fst_keep [of l sect entry acc] Cons.prems
    by (cases "scanStep sect entry (True, acc) l") simp
  then show ?case using Cons by simp
qed

lemma setAdd_mono: "x \<in> set xs \<Longrightarrow> x \<in> set (setAdd y xs)"
  by (simp add: setAdd_def)

lemma scanStep_mono: "x \<in> set (snd st) \<Longrightarrow> x \<in> set (snd (scanStep sect entry st l))"
  by (cases st) (simp add: scanStep_def setAdd_mono split: option.split)

lemma foldl_scanStep_mono:
  "x \<in> set (snd st) \<Longrightarrow> x \<in> set (snd (foldl (scanStep sect entry) st post))"
  by (induction post arbitrary: st) (simp_all add: scanStep_mono)

lemma scanSection_declared:
  assumes "isSectionHeader sect h" and "list_all (\<lambda>l. \<not> isRootKey l) mid"
    and "\<not> isSectionHeader sect l" "\<not> isRootKey l" "entry l = Some name"
  shows "name \<in> set (scanSection sect entry (pre @ [h] @ mid @ [l] @ post))"
proof -
  let ?f = "scanStep sect entry"
  obtain s0 where s0: "?f (foldl ?f (False, []) pre) h = (True, s0)"
    using assms(1) by (simp add: scanStep_def)
  obtain s1 where s1: "foldl ?f (True, s0) mid = (True, s1)"
    using foldl_scanStep_inside [OF assms(2), of sect entry s0]
    by (cases "foldl ?f (True, s0) mid") simp
  have "?f (True, s1) l = (True, setAdd name s1)"
    using assms(3,4,5) by (simp add: scanStep_def)
  then have "name \<in> set (snd (?f (True, s1) l))" by (simp add: setAdd_def)
  then have "name \<in> set (snd (foldl ?f (?f (True, s1) l) post))"
    by (rule foldl_scanStep_mono)
  then show ?thesis by (simp add: scanSection_def s0 s1)
qed

section \<open>The validator (class RotationDiagnosticProvider)\<close>

subsection \<open>Findings, strings and regular expressions\<close>

text \<open>
  A finding is a \<open>vscode.Diagnostic\<close>: its range lies on one line (both ends of every range
  of the source are \<open>lineNum\<close>), from \<open>startCol\<close> to \<open>endCol\<close>.
\<close>

datatype severity = Error | Warning | Information

record finding =
  line :: nat
  startCol :: int
  endCol :: int
  message :: string
  severity :: severity

fun indexOf :: "string \<Rightarrow> string \<Rightarrow> int" where
  \<comment> \<open>\<open>text.indexOf(needle)\<close>, -1 when there is no occurrence\<close>
  "indexOf [] needle = (if needle = [] then 0 else - 1)"
| "indexOf (c # cs) needle =
     (if prefix needle (c # cs) then 0
      else (let i = indexOf cs needle in if i < 0 then - 1 else i + 1))"

definition includesStr :: "string \<Rightarrow> string \<Rightarrow> bool" where
  \<comment> \<open>\<open>text.includes(needle)\<close>\<close>
  "includesStr text needle = (0 \<le> indexOf text needle)"

fun joinWith :: "string \<Rightarrow> string list \<Rightarrow> string" where
  \<comment> \<open>\<open>Array.prototype.join\<close>\<close>
  "joinWith sep [] = []"
| "joinWith sep [x] = x"
| "joinWith sep (x # y # ys) = x @ sep @ joinWith sep (y # ys)"

function showNat :: "nat \<Rightarrow> string" where
  \<comment> \<open>a count in a template literal\<close>
  "showNat n =
     (if n < 10 then [''0123456789'' ! n] else showNat (n div 10) @ [''0123456789'' ! (n mod 10)])"
  by pat_completeness auto
termination
  by (relation "measure id") auto

declare showNat.simps [simp del]

text \<open>
  A regular expression is modelled by a function that tries it at one position: it is given
  the character before the position (for \<open>\b\<close>) and the text from the position on, and
  returns the length of the match and its capture group. In every pattern of the source a
  greedy quantifier is followed by a character outside its class and the alternatives of a
  group start with different characters, so that the first attempt of the backtracking
  matcher is the only one that can succeed.

  \<open>firstMatch\<close> is \<open>String.prototype.match\<close> and \<open>RegExp.prototype.test\<close> for a pattern with no
  flag \<open>g\<close>: the leftmost match. \<open>execAll\<close> is the loop \<open>while ((match = regex.exec(text)) !==
  null)\<close> on a pattern with the flag \<open>g\<close>: the search goes on where the previous match
  ended. Every pattern matches at least one character.
\<close>

record rmatch =
  mIndex :: nat
  mText :: string
  mGroup :: string

type_synonym matcher = "char option \<Rightarrow> string \<Rightarrow> (nat \<times> string) option"

fun firstMatchFrom :: "matcher \<Rightarrow> char option \<Rightarrow> nat \<Rightarrow> string \<Rightarrow> rmatch option" where
  "firstMatchFrom m prev idx [] = None"
| "firstMatchFrom m prev idx (c # cs) =
     (case m prev (c # cs) of
        None \<Rightarrow> firstMatchFrom m (Some c) (Suc idx) cs
      | Some (len, cap) \<Rightarrow> Some \<lparr>mIndex = idx, mText = take len (c # cs), mGroup = cap\<rparr>)"

definition firstMatch :: "matcher \<Rightarrow> string \<Rightarrow> rmatch option" where
  "firstMatch m text = firstMatchFrom m None 0 text"

function execFrom :: "matcher \<Rightarrow> char option \<Rightarrow> nat \<Rightarrow> string \<Rightarrow> rmatch list" where
  "execFrom m prev idx [] = []"
| "execFrom m prev idx (c # cs) =
     (case m prev (c # cs) of
        None \<Rightarrow> execFrom m (Some c) (Suc idx) cs
      | Some (len, cap) \<Rightarrow>
          \<lparr>mIndex = idx, mText = take len (c # cs), mGroup = cap\<rparr>
            # execFrom m (Some ((c # cs) ! (len - 1))) (idx + len) (drop (len - 1) cs))"
  by pat_completeness auto
termination
  by (relation "measure (\<lambda>(m, prev, idx, s). length s)") auto

definition execAll :: "matcher \<Rightarrow> string \<Rightarrow> rmatch list" where
  "execAll m text = execFrom m None 0 text"

fun anySuffix :: "(string \<Rightarrow> bool) \<Rightarrow> string \<Rightarrow> bool" where
  \<comment> \<open>\<open>test\<close> for a pattern that does not look at the character before: some position matches\<close>
  "anySuffix P [] = P []"
| "anySuffix P (c # cs) = (P (c # cs) \<or> anySuffix P cs)"

definition wordBoundary :: "char option \<Rightarrow> string \<Rightarrow> bool" where
  \<comment> \<open>\<open>\b\<close>\<close>
  "wordBoundary prev rest =
     ((case prev of None \<Rightarrow> False | Some c \<Rightarrow> isWordChar c)
        \<noteq> (case rest of [] \<Rightarrow> False | c # _ \<Rightarrow> isWordChar c))"

text \<open>
  The pieces that come before the capture group in the patterns of \<open>validateSpellNames\<close>: a
  literal, a group of literal alternatives, one character of a class.
\<close>

datatype atom = Lit string | OneOf "string list" | Cls "char \<Rightarrow> bool"

fun firstPrefix :: "string list \<Rightarrow> string \<Rightarrow> string option" where
  "firstPrefix [] s = None"
| "firstPrefix (a # as) s = (if prefix a s then Some a else firstPrefix as s)"

fun matchAtoms :: "atom list \<Rightarrow> string \<Rightarrow> nat option" where
  "matchAtoms [] s = Some 0"
| "matchAtoms (Lit l # as) s =
     (if prefix l s then map_option (\<lambda>n. length l + n) (matchAtoms as (drop (length l) s))
      else None)"
| "matchAtoms (OneOf ls # as) s =
     (case firstPrefix ls s of
        None \<Rightarrow> None
      | Some l \<Rightarrow> map_option (\<lambda>n. length l + n) (matchAtoms as (drop (length l) s)))"
| "matchAtoms (Cls P # as) s =
     (case s of
        [] \<Rightarrow> None
      | c # cs \<Rightarrow> if P c then map_option Suc (matchAtoms as cs) else None)"

definition nameMatcher :: "atom list \<Rightarrow> string \<Rightarrow> matcher" where
  \<comment> \<open>\<open>\b atoms (\w+) suf\<close>, where \<open>suf\<close> is a literal\<close>
  "nameMatcher atoms suf prev rest =
     (if wordBoundary prev rest then
        (case matchAtoms atoms rest of
           None \<Rightarrow> None
         | Some n \<Rightarrow>
             let w = takeWhile isWordChar (drop n rest) in
             if w \<noteq> [] \<and> prefix suf (drop (n + length w) rest)
             then Some (n + length w + length suf, w) else None)
      else None)"

subsection \<open>Action lines (validateActionLine)\<close>

definition mkFinding :: "nat \<Rightarrow> int \<Rightarrow> int \<Rightarrow> string \<Rightarrow> severity \<Rightarrow> finding" where
  \<comment> \<open>\<open>new vscode.Diagnostic(new vscode.Range(lineNum, s, lineNum, e), msg, sev)\<close>\<close>
  "mkFinding lineNum s e msg sev =
     \<lparr>line = lineNum, startCol = s, endCol = e, message = msg, severity = sev\<rparr>"

definition wholeLine :: "nat \<Rightarrow> string \<Rightarrow> string \<Rightarrow> severity \<Rightarrow> finding" where
  \<comment> \<open>the range \<open>(lineNum, 0, lineNum, text.length)\<close>\<close>
  "wholeLine lineNum text msg sev = mkFinding lineNum 0 (int (length text)) msg sev"

definition actionContent :: "string \<Rightarrow> string option" where
  \<comment> \<open>\<open>text.match(/^\s*-\s*(.+)$/)\<close>: the second \<open>\s*\<close> gives one character back when
      nothing but white space follows the dash; \<open>.\<close> is any character but a line terminator\<close>
  "actionContent text =
     (case dropWhile isSpace text of
        [] \<Rightarrow> None
      | d # rest \<Rightarrow>
          if d = CHR ''-'' then
            (let r = dropWhile isSpace rest;
                 content = (if r \<noteq> [] then r else if rest \<noteq> [] then [last rest] else [])
             in if content \<noteq> [] \<and> list_all (\<lambda>c. \<not> isLineTerminator c) content
                then Some content else None)
          else None)"

definition countChar :: "char \<Rightarrow> string \<Rightarrow> nat" where
  \<comment> \<open>\<open>(actionContent.match(/\(/g) || []).length\<close>\<close>
  "countChar c s = length (filter (\<lambda>d. d = c) s)"

definition isOperator :: "char \<Rightarrow> bool" where
  \<comment> \<open>\<open>[&|]\<close>\<close>
  "isOperator c = (c = CHR ''&'' \<or> c = CHR ''|'')"

definition litPrefix :: "bool \<Rightarrow> string \<Rightarrow> string \<Rightarrow> bool" where
  \<comment> \<open>a literal of lower-case letters at the start of \<open>s\<close>, under the flag \<open>i\<close> or not\<close>
  "litPrefix ignoreCase lit s =
     (if ignoreCase then map toLowerChar (take (length lit) s) = lit else prefix lit s)"

definition checkParentheses :: "string \<Rightarrow> string \<Rightarrow> nat \<Rightarrow> finding list" where
  "checkParentheses content text lineNum =
     (let openParens = countChar CHR ''('' content; closeParens = countChar CHR '')'' content in
      if openParens \<noteq> closeParens
      then [wholeLine lineNum text
              (''Unbalanced parentheses: '' @ showNat openParens @ '' opening, '' @
               showNat closeParens @ '' closing'') Error]
      else [])"

definition emptyConditionAt :: "string \<Rightarrow> bool" where
  \<comment> \<open>\<open>/,if=\s*(,|$)/\<close> at one position\<close>
  "emptyConditionAt s =
     (prefix '',if='' s \<and>
      (let r = dropWhile isSpace (drop 4 s) in r = [] \<or> prefix '','' r))"

definition checkEmptyCondition :: "string \<Rightarrow> string \<Rightarrow> nat \<Rightarrow> finding list" where
  "checkEmptyCondition content text lineNum =
     (if anySuffix emptyConditionAt content
      then (let ifIndex = indexOf text '',if='' in
            [mkFinding lineNum ifIndex (ifIndex + 4) ''Empty condition after if='' Error])
      else [])"

definition operatorRun :: matcher where
  \<comment> \<open>\<open>/[&|]{3,}/\<close>\<close>
  "operatorRun prev rest =
     (let run = takeWhile isOperator rest in
      if length run \<ge> 3 then Some (length run, []) else None)"

definition checkOperatorRun :: "string \<Rightarrow> string \<Rightarrow> nat \<Rightarrow> finding list" where
  "checkOperatorRun content text lineNum =
     (case firstMatch operatorRun content of
        None \<Rightarrow> []
      | Some m \<Rightarrow>
          (let index = indexOf text (mText m) in
           [mkFinding lineNum index (index + int (length (mText m)))
              ''Invalid operator sequence'' Error]))"

definition trailingOperatorAt :: "string \<Rightarrow> bool" where
  \<comment> \<open>\<open>/[&|]\s*(,|$)/\<close> at one position\<close>
  "trailingOperatorAt s =
     (case s of
        [] \<Rightarrow> False
      | c # cs \<Rightarrow> isOperator c \<and> (let r = dropWhile isSpace cs in r = [] \<or> prefix '','' r))"

definition checkTrailingOperator :: "string \<Rightarrow> string \<Rightarrow> nat \<Rightarrow> finding list" where
  "checkTrailingOperator content text lineNum =
     (if anySuffix trailingOperatorAt content
      then [wholeLine lineNum text ''Condition ends with an operator'' Warning]
      else [])"

definition leadingOperatorAt :: "string \<Rightarrow> bool" where
  \<comment> \<open>\<open>/,if=[&|]/\<close> at one position\<close>
  "leadingOperatorAt s =
     (prefix '',if='' s \<and> (case drop 4 s of [] \<Rightarrow> False | c # _ \<Rightarrow> isOperator c))"

definition checkLeadingOperator :: "string \<Rightarrow> string \<Rightarrow> nat \<Rightarrow> finding list" where
  "checkLeadingOperator content text lineNum =
     (if anySuffix leadingOperatorAt content
      then (let ifIndex = indexOf text '',if='' in
            [mkFinding lineNum ifIndex (ifIndex + 5)
               ''Condition starts with an operator (use ! for negation)'' Warning])
      else [])"

definition redundantTrueAt :: "string \<Rightarrow> string \<Rightarrow> bool" where
  \<comment> \<open>\<open>/\.up\s*=\s*true/i\<close> and \<open>/\.down\s*=\s*true/i\<close> at one position\<close>
  "redundantTrueAt prop s =
     (prefix ''.'' s \<and> litPrefix True prop (drop 1 s) \<and>
      (let r = dropWhile isSpace (drop (1 + length prop) s) in
       prefix ''='' r \<and> litPrefix True ''true'' (dropWhile isSpace (drop 1 r))))"

definition checkRedundantTrue :: "string \<Rightarrow> string \<Rightarrow> string \<Rightarrow> nat \<Rightarrow> finding list" where
  "checkRedundantTrue prop content text lineNum =
     (if anySuffix (redundantTrueAt prop) content
      then [wholeLine lineNum text
              (''.'' @ prop @ '' already returns boolean, no need for =true (use just .'' @
               prop @ '')'') Information]
      else [])"

definition checkMissingSpellName :: "string \<Rightarrow> nat \<Rightarrow> finding list" where
  \<comment> \<open>\<open>/^\s*-\s*,/.test(text)\<close>\<close>
  "checkMissingSpellName text lineNum =
     (if (case dropWhile isSpace text of
            [] \<Rightarrow> False
          | d # rest \<Rightarrow> d = CHR ''-'' \<and> prefix '','' (dropWhile isSpace rest))
      then [wholeLine lineNum text ''Missing spell name before comma'' Error]
      else [])"

definition checkNameParameter :: "string \<Rightarrow> string \<Rightarrow> nat \<Rightarrow> finding list" where
  "checkNameParameter content text lineNum =
     (if (prefix ''call_action_list'' content \<or> prefix ''run_action_list'' content)
         \<and> \<not> includesStr content ''name=''
      then [wholeLine lineNum text
              ''call_action_list/run_action_list requires name= parameter'' Error]
      else [])"

definition callAlias :: matcher where
  \<comment> \<open>\<open>/\bcall=(\w*)/\<close>\<close>
  "callAlias prev rest =
     (if wordBoundary prev rest \<and> prefix ''call='' rest
      then (let w = takeWhile isWordChar (drop 5 rest) in Some (5 + length w, w))
      else None)"

definition checkCallAlias :: "string \<Rightarrow> string \<Rightarrow> nat \<Rightarrow> finding list" where
  "checkCallAlias content text lineNum =
     (case firstMatch callAlias content of
        None \<Rightarrow> []
      | Some m \<Rightarrow>
          if mGroup m = [] then [wholeLine lineNum text ''call= requires a list name'' Error]
          else [])"

fun nameParams :: "string \<Rightarrow> string list" where
  \<comment> \<open>the names at the positions where \<open>name=(\w+)\<close> matches, from left to right\<close>
  "nameParams [] = []"
| "nameParams (c # cs) =
     (if prefix ''name='' (c # cs) \<and> takeWhile isWordChar (drop 5 (c # cs)) \<noteq> []
      then [takeWhile isWordChar (drop 5 (c # cs))] else [])
     @ nameParams cs"

definition lastNameParam :: "string \<Rightarrow> string option" where
  \<comment> \<open>\<open>.*name=(\w+)\<close> at the start of \<open>s\<close>: the greedy \<open>.*\<close> finds the last position\<close>
  "lastNameParam s = (case nameParams s of [] \<Rightarrow> None | n # ns \<Rightarrow> Some (last (n # ns)))"

fun actionListName :: "string \<Rightarrow> string option" where
  \<comment> \<open>\<open>actionContent.match(/(?:call|run)_action_list.*name=(\w+)/)\<close>\<close>
  "actionListName [] = None"
| "actionListName (c # cs) =
     (case (if prefix ''call_action_list'' (c # cs) then lastNameParam (drop 16 (c # cs))
            else if prefix ''run_action_list'' (c # cs) then lastNameParam (drop 15 (c # cs))
            else None) of
        Some n \<Rightarrow> Some n
      | None \<Rightarrow> actionListName cs)"

definition sharedLists :: "string list" where
  "sharedLists =
     [''spell_queue'', ''sanity_checks'', ''auto_target'', ''auto_heal'',
      ''variables'', ''precombat'', ''cooldowns'', ''defensives'', ''interrupts'']"

definition listMatch :: "string \<Rightarrow> string option" where
  \<comment> \<open>the name that the list check looks at: that of \<open>call_action_list\<close> or
      \<open>run_action_list\<close>, else that of a non-empty \<open>call=\<close>\<close>
  "listMatch content =
     (case actionListName content of
        Some n \<Rightarrow> Some n
      | None \<Rightarrow>
          (case firstMatch callAlias content of
             None \<Rightarrow> None
           | Some m \<Rightarrow> if mGroup m \<noteq> [] then Some (mGroup m) else None))"

definition checkListReference :: "string \<Rightarrow> string \<Rightarrow> nat \<Rightarrow> string list \<Rightarrow> finding list" where
  "checkListReference content text lineNum definedLists =
     (case listMatch content of
        None \<Rightarrow> []
      | Some listName \<Rightarrow>
          if listName \<notin> set definedLists \<and> listName \<notin> set sharedLists then
            (let nameIndex = indexOf text (''name='' @ listName) + 5;
                 msg = ''Action list \"'' @ listName @ ''\" is not defined'' @
                       (if length definedLists > 0
                        then ''. Available lists: '' @ joinWith '', '' definedLists else [])
             in [mkFinding lineNum nameIndex (nameIndex + int (length listName)) msg Error])
          else [])"

definition validateActionLine :: "string \<Rightarrow> nat \<Rightarrow> string list \<Rightarrow> finding list" where
  "validateActionLine text lineNum definedLists =
     (case actionContent text of
        None \<Rightarrow> []
      | Some content \<Rightarrow>
          checkParentheses content text lineNum
          @ checkEmptyCondition content text lineNum
          @ checkOperatorRun content text lineNum
          @ checkTrailingOperator content text lineNum
          @ checkLeadingOperator content text lineNum
          @ checkRedundantTrue ''up'' content text lineNum
          @ checkRedundantTrue ''down'' content text lineNum
          @ checkMissingSpellName text lineNum
          @ checkNameParameter content text lineNum
          @ checkCallAlias content text lineNum
          @ checkListReference content text lineNum definedLists)"

subsection \<open>Spell names (validateSpellNames)\<close>

definition spellPatterns :: "(matcher \<times> string) list" where
  \<comment> \<open>the array \<open>patterns\<close>: each regular expression with its \<open>type\<close>\<close>
  "spellPatterns =
     [(nameMatcher [Lit ''buff.''] ''.'', ''buff''),
      (nameMatcher [Lit ''debuff.''] ''.'', ''debuff''),
      (nameMatcher [Lit ''dot.''] ''.'', ''dot''),
      (nameMatcher [Lit ''cooldown.''] ''.'', ''cooldown''),
      (nameMatcher [Lit ''totem.''] ''.'', ''totem''),
      (nameMatcher [Lit ''talent.''] [], ''talent''),
      (nameMatcher [Lit ''usable.''] [], ''usable''),
      (nameMatcher [Lit ''active_dot.''] [], ''active_dot''),
      (nameMatcher [Lit ''nameplates.debuff.''] ''.'', ''nameplates.debuff''),
      (nameMatcher [Lit ''nameplates.buff.''] ''.'', ''nameplates.buff''),
      (nameMatcher [Lit ''prev_gcd.'', Cls isDigit, Lit ''.''] [], ''prev_gcd''),
      (nameMatcher [OneOf [''player'', ''target'', ''focus'', ''mouseover''], Lit ''.buff.'',
                    OneOf [''up'', ''down'', ''remains'', ''stacks''], Lit ''(''] '')'',
       ''buff function''),
      (nameMatcher [OneOf [''player'', ''target'', ''focus'', ''mouseover''], Lit ''.debuff.'',
                    OneOf [''up'', ''down'', ''remains'', ''stacks''], Lit ''(''] '')'',
       ''debuff function''),
      (nameMatcher [Lit ''player.talent(''] '')'', ''talent function''),
      (nameMatcher [Lit ''player.prev_gcd_'', Cls (\<lambda>c. c \<in> set ''12345''), Lit ''(''] '')'',
       ''prev_gcd function'')]"

definition actionName :: "string \<Rightarrow> string option" where
  \<comment> \<open>\<open>text.match(/^\s*-\s*(\w+)/)\<close>\<close>
  "actionName text =
     (case dropWhile isSpace text of
        [] \<Rightarrow> None
      | d # rest \<Rightarrow>
          if d = CHR ''-'' then
            (let w = takeWhile isWordChar (dropWhile isSpace rest) in
             if w \<noteq> [] then Some w else None)
          else None)"

definition specialActions :: "string list" where
  "specialActions =
     [''call_action_list'', ''run_action_list'', ''return'', ''stop_casting'', ''queue_spell'',
      ''trinket_1'', ''trinket_2'', ''healthstone'', ''health_potion'',
      ''mana_potion'', ''combat_potion'', ''target_enemy'', ''attack_target'',
      ''weapon_onuse'', ''wrist_onuse'', ''helm_onuse'', ''cloak_onuse'', ''belt_onuse'',
      ''interact_target'', ''interact_mouseover'', ''loot_a_rang'', ''augment_rune'',
      ''focus_party1'', ''focus_party2'', ''focus_party3'', ''focus_party4'',
      ''target_mouseover'', ''target_focus'', ''focus_target'', ''focus_mouseover'', ''call'']
     @ map (\<lambda>i. ''focus_raid'' @ showNat (i + 1)) [0 ..< 40]"

definition isNumeric :: "string \<Rightarrow> bool" where
  \<comment> \<open>\<open>/^\d+$/.test(spellName)\<close>\<close>
  "isNumeric s = (s \<noteq> [] \<and> list_all isDigit s)"

definition isPlaceholder :: "string \<Rightarrow> bool" where
  "isPlaceholder s = (s = ''SPELL'' \<or> s = ''TALENT'' \<or> s = ''VARNAME'')"

definition didYouMean :: "SpellDatabase \<Rightarrow> string \<Rightarrow> string" where
  \<comment> \<open>the end of both messages, from \<open>findSimilar(spellName)\<close>\<close>
  "didYouMean db spellName =
     (let similar = findSimilar db spellName 2 in
      if length similar > 0
      then ''. Did you mean: '' @ joinWith '', '' (map normalizedName similar) @ ''?''
      else [])"

definition checkActionName :: "SpellDatabase \<Rightarrow> string \<Rightarrow> nat \<Rightarrow> finding list" where
  "checkActionName db text lineNum =
     (case actionName text of
        None \<Rightarrow> []
      | Some spellName \<Rightarrow>
          if isNumeric spellName then []
          else if spellName \<notin> set specialActions \<and> \<not> isValidSpell db spellName then
            (let startIndex = indexOf text spellName in
             [mkFinding lineNum startIndex (startIndex + int (length spellName))
                (''Unknown spell: \"'' @ spellName @ ''\"'' @ didYouMean db spellName) Warning])
          else [])"

definition unknownSpellIn :: "SpellDatabase \<Rightarrow> nat \<Rightarrow> string \<Rightarrow> rmatch \<Rightarrow> finding" where
  \<comment> \<open>the finding of the loop over the patterns, for a match of the pattern of type \<open>ty\<close>\<close>
  "unknownSpellIn db lineNum ty m =
     (let spellName = mGroup m;
          startIndex = int (mIndex m) + indexOf (mText m) spellName
      in mkFinding lineNum startIndex (startIndex + int (length spellName))
           (''Unknown spell in '' @ ty @ '': \"'' @ spellName @ ''\"'' @ didYouMean db spellName)
           Warning)"

definition checkExpressionName :: "SpellDatabase \<Rightarrow> nat \<Rightarrow> string \<Rightarrow> rmatch \<Rightarrow> finding list" where
  \<comment> \<open>the body of the loop \<open>while ((match = pattern.regex.exec(text)) !== null)\<close>\<close>
  "checkExpressionName db lineNum ty m =
     (if isPlaceholder (mGroup m) then []
      else if isNumeric (mGroup m) then []
      else if \<not> isValidSpell db (mGroup m) then [unknownSpellIn db lineNum ty m]
      else [])"

definition expressionMatches :: "string \<Rightarrow> (string \<times> rmatch) list" where
  \<comment> \<open>every match of every pattern, in the order of the two loops, with the type of its
      pattern\<close>
  "expressionMatches text =
     concat (map (\<lambda>(regex, ty). map (\<lambda>m. (ty, m)) (execAll regex text)) spellPatterns)"

definition checkExpressionNames :: "SpellDatabase \<Rightarrow> string \<Rightarrow> nat \<Rightarrow> finding list" where
  "checkExpressionNames db text lineNum =
     concat (map (\<lambda>(ty, m). checkExpressionName db lineNum ty m) (expressionMatches text))"

definition validateSpellNames :: "SpellDatabase \<Rightarrow> string \<Rightarrow> nat \<Rightarrow> finding list" where
  "validateSpellNames db text lineNum =
     (if \<not> isLoaded db then []
      else checkActionName db text lineNum @ checkExpressionNames db text lineNum)"

subsection \<open>Config and variable references (validateConfigAndVarReferences)\<close>

definition sharedConfigVars :: "string list" where
  "sharedConfigVars =
     [''auto_target_enabled'', ''auto_target_range'', ''auto_target_delay'',
      ''auto_heal_enabled'', ''auto_heal_range'',
      ''interrupt_enabled'', ''interrupt_delay'', ''interrupt_threshold'',
      ''defensive_enabled'', ''defensive_threshold'',
      ''burst_enabled'', ''aoe_enabled'', ''aoe_threshold'',
      ''movement_threshold'', ''gcd_tolerance'']"

definition notDefinedMessage :: "string \<Rightarrow> string \<Rightarrow> string list \<Rightarrow> string" where
  "notDefinedMessage kind varName availableVars =
     kind @ '' \"'' @ varName @ ''\" is not defined'' @
     (if length availableVars > 0
      then ''. Available: '' @ joinWith '', '' (take 5 availableVars) @
           (if length availableVars > 5 then ''...'' else [])
      else [])"

definition checkConfigReference :: "nat \<Rightarrow> string list \<Rightarrow> rmatch \<Rightarrow> finding list" where
  "checkConfigReference lineNum definedConfigVars m =
     (let varName = mGroup m in
      if varName \<notin> set definedConfigVars \<and> varName \<notin> set sharedConfigVars then
        (let startIndex = int (mIndex m) + 7 in
         [mkFinding lineNum startIndex (startIndex + int (length varName))
            (notDefinedMessage ''Config variable'' varName definedConfigVars) Warning])
      else [])"

definition checkVarReference :: "nat \<Rightarrow> string list \<Rightarrow> rmatch \<Rightarrow> finding list" where
  "checkVarReference lineNum definedVariables m =
     (let varName = mGroup m in
      if varName \<notin> set definedVariables then
        (let startIndex = int (mIndex m) + 4 in
         [mkFinding lineNum startIndex (startIndex + int (length varName))
            (notDefinedMessage ''Variable'' varName definedVariables) Warning])
      else [])"

definition validateConfigAndVarReferences ::
  "string \<Rightarrow> nat \<Rightarrow> string list \<Rightarrow> string list \<Rightarrow> finding list" where
  "validateConfigAndVarReferences text lineNum definedConfigVars definedVariables =
     concat (map (checkConfigReference lineNum definedConfigVars)
               (execAll (nameMatcher [Lit ''config.''] []) text))
     @ concat (map (checkVarReference lineNum definedVariables)
                 (execAll (nameMatcher [Lit ''var.''] []) text))"

subsection \<open>Common typos (checkCommonTypos)\<close>

definition literalMatcher :: "bool \<Rightarrow> string \<Rightarrow> bool \<Rightarrow> matcher" where
  \<comment> \<open>\<open>\b lit\<close>, with a second \<open>\b\<close> after it when \<open>endBoundary\<close> is set\<close>
  "literalMatcher ignoreCase lit endBoundary prev rest =
     (if wordBoundary prev rest \<and> litPrefix ignoreCase lit rest then
        (if endBoundary then
           (if wordBoundary (Some (last (take (length lit) rest))) (drop (length lit) rest)
            then Some (length lit, []) else None)
         else Some (length lit, []))
      else None)"

definition stackMatcher :: matcher where
  \<comment> \<open>\<open>/\bstack\s*>/g\<close>\<close>
  "stackMatcher prev rest =
     (if wordBoundary prev rest \<and> prefix ''stack'' rest then
        (let ws = takeWhile isSpace (drop 5 rest) in
         if prefix ''>'' (drop (5 + length ws) rest) then Some (5 + length ws + 1, []) else None)
      else None)"

definition equalsMatcher :: matcher where
  \<comment> \<open>\<open>/==+/g\<close>\<close>
  "equalsMatcher prev rest =
     (let run = takeWhile (\<lambda>c. c = CHR ''='') rest in
      if length run \<ge> 2 then Some (length run, []) else None)"

definition notMatcher :: matcher where
  \<comment> \<open>\<open>/\bnot\s+\w/gi\<close>\<close>
  "notMatcher prev rest =
     (if wordBoundary prev rest \<and> litPrefix True ''not'' rest then
        (let ws = takeWhile isSpace (drop 3 rest) in
         if ws \<noteq> [] \<and> (case drop (3 + length ws) rest of [] \<Rightarrow> False | c # _ \<Rightarrow> isWordChar c)
         then Some (3 + length ws + 1, []) else None)
      else None)"

definition typos :: "(matcher \<times> string \<times> severity) list" where
  "typos =
     [(literalMatcher False ''buf.'' False, ''Did you mean \"buff.\"?'', Warning),
      (literalMatcher False ''debbuf.'' False, ''Did you mean \"debuff.\"?'', Warning),
      (literalMatcher False ''cooldonw.'' False, ''Did you mean \"cooldown.\"?'', Warning),
      (literalMatcher False ''talant.'' False, ''Did you mean \"talent.\"?'', Warning),
      (literalMatcher False ''health_pct'' True, ''Did you mean \"health.pct\"?'', Warning),
      (literalMatcher False ''target_health'' True, ''Did you mean \"target.health.pct\"?'', Warning),
      (literalMatcher False ''player_moving'' True, ''Did you mean \"player.moving\"?'', Warning),
      (literalMatcher False ''active_enemie'' True, ''Did you mean \"active_enemies\"?'', Warning),
      (literalMatcher False ''remaning'' True, ''Did you mean \"remains\"?'', Warning),
      (stackMatcher, ''Did you mean \".stack>\"?'', Information),
      (equalsMatcher, ''Use single = for equality'', Information),
      (literalMatcher True ''and'' True, ''Use & for AND operator'', Warning),
      (literalMatcher True ''or'' True, ''Use | for OR operator'', Warning),
      (notMatcher, ''Use ! for NOT operator'', Warning)]"

definition typoFinding :: "nat \<Rightarrow> string \<Rightarrow> severity \<Rightarrow> rmatch \<Rightarrow> finding" where
  "typoFinding lineNum msg sev m =
     mkFinding lineNum (int (mIndex m)) (int (mIndex m) + int (length (mText m))) msg sev"

definition checkCommonTypos :: "string \<Rightarrow> nat \<Rightarrow> finding list" where
  "checkCommonTypos text lineNum =
     concat (map (\<lambda>(regex, msg, sev). map (typoFinding lineNum msg sev) (execAll regex text))
               typos)"

subsection \<open>One validation pass (updateDiagnostics)\<close>

definition validateLine ::
  "SpellDatabase \<Rightarrow> string list \<Rightarrow> string list \<Rightarrow> string list \<Rightarrow> nat \<Rightarrow> string \<Rightarrow> finding list" where
  \<comment> \<open>the body of the loop over the lines\<close>
  "validateLine db definedLists definedConfigVars definedVariables lineNum text =
     (if prefix ''#'' (trim text) \<or> trim text = [] then []
      else
        (if prefix ''-'' (dropWhile isSpace text)
         then validateActionLine text lineNum definedLists else [])
        @ validateSpellNames db text lineNum
        @ validateConfigAndVarReferences text lineNum definedConfigVars definedVariables
        @ checkCommonTypos text lineNum)"

definition updateDiagnostics :: "SpellDatabase \<Rightarrow> string list \<Rightarrow> finding list" where
  "updateDiagnostics db document =
     (let definedLists = collectDefinedLists document;
          definedConfigVars = collectDefinedConfigVars document;
          definedVariables = collectDefinedVariables document
      in concat (map (\<lambda>(lineNum, text).
                        validateLine db definedLists definedConfigVars definedVariables lineNum text)
                   (zip [0 ..< length document] document)))"

text \<open>
  The order that the specification gives for the findings of one pass: by line, and by start
  column within a line.
\<close>

definition orderedByLineThenColumn :: "finding list \<Rightarrow> bool" where
  "orderedByLineThenColumn fs =
     sorted_wrt (\<lambda>f g. line f < line g \<or> (line f = line g \<and> startCol f \<le> startCol g)) fs"

section \<open>Lines and severities of the findings\<close>

text \<open>The patterns of the loops over \<open>exec\<close> match at least one character.\<close>

lemma nameMatcher_positive: "nameMatcher atoms suf prev rest = Some (len, w) \<Longrightarrow> 0 < len"
  by (auto simp: nameMatcher_def Let_def split: if_splits option.splits)

lemma typo_matchers_positive:
  "stackMatcher prev rest = Some (len, w) \<Longrightarrow> 0 < len"
  "equalsMatcher prev rest = Some (len, w) \<Longrightarrow> 0 < len"
  "notMatcher prev rest = Some (len, w) \<Longrightarrow> 0 < len"
  "lit \<noteq> [] \<Longrightarrow> literalMatcher ci lit eb prev rest = Some (len, w) \<Longrightarrow> 0 < len"
  by (auto simp: stackMatcher_def equalsMatcher_def notMatcher_def literalMatcher_def Let_def
      split: if_splits)

lemma line_mkFinding [simp]: "line (mkFinding n s e msg sev) = n"
  and severity_mkFinding [simp]: "severity (mkFinding n s e msg sev) = sev"
  by (simp_all add: mkFinding_def)

lemma line_wholeLine [simp]: "line (wholeLine n text msg sev) = n"
  and severity_wholeLine [simp]: "severity (wholeLine n text msg sev) = sev"
  by (simp_all add: wholeLine_def)

lemma validateActionLine_line: "f \<in> set (validateActionLine text n defined) \<Longrightarrow> line f = n"
  by (auto simp: validateActionLine_def checkParentheses_def checkEmptyCondition_def
      checkOperatorRun_def checkTrailingOperator_def checkLeadingOperator_def
      checkRedundantTrue_def checkMissingSpellName_def checkNameParameter_def
      checkCallAlias_def checkListReference_def Let_def split: option.splits if_splits)

lemma checkExpressionName_cases:
  "checkExpressionName db n ty m =
     (if \<not> isPlaceholder (mGroup m) \<and> \<not> isNumeric (mGroup m) \<and> \<not> isValidSpell db (mGroup m)
      then [unknownSpellIn db n ty m] else [])"
  by (simp add: checkExpressionName_def)

lemma concat_map_if_filter:
  "concat (map (\<lambda>x. if P x then [g x] else []) xs) = map g (filter P xs)"
  by (induction xs) simp_all

lemma checkExpressionNames_filter:
  "checkExpressionNames db text n =
     map (\<lambda>(ty, m). unknownSpellIn db n ty m)
       (filter (\<lambda>(ty, m). \<not> isPlaceholder (mGroup m) \<and> \<not> isNumeric (mGroup m)
                          \<and> \<not> isValidSpell db (mGroup m))
          (expressionMatches text))"
proof -
  have "(\<lambda>(ty, m). checkExpressionName db n ty m) =
        (\<lambda>x. if (\<lambda>(ty, m). \<not> isPlaceholder (mGroup m) \<and> \<not> isNumeric (mGroup m)
                          \<and> \<not> isValidSpell db (mGroup m)) x
              then [(\<lambda>(ty, m). unknownSpellIn db n ty m) x] else [])"
    by (rule ext) (simp add: checkExpressionName_cases split: prod.split)
  then show ?thesis
    unfolding checkExpressionNames_def by (simp only: concat_map_if_filter)
qed

lemma unknownSpellIn_line [simp]: "line (unknownSpellIn db n ty m) = n"
  and unknownSpellIn_severity [simp]: "severity (unknownSpellIn db n ty m) = Warning"
  by (simp_all add: unknownSpellIn_def Let_def)

lemma validateSpellNames_line: "f \<in> set (validateSpellNames db text n) \<Longrightarrow> line f = n"
  by (auto simp: validateSpellNames_def checkActionName_def checkExpressionNames_filter Let_def
      split: option.splits if_splits)

lemma validateSpellNames_severity:
  "f \<in> set (validateSpellNames db text n) \<Longrightarrow> severity f = Warning"
  by (auto simp: validateSpellNames_def checkActionName_def checkExpressionNames_filter Let_def
      split: option.splits if_splits)

lemma validateConfigAndVarReferences_line:
  "f \<in> set (validateConfigAndVarReferences text n cfg vars) \<Longrightarrow> line f = n"
  by (auto simp: validateConfigAndVarReferences_def checkConfigReference_def
      checkVarReference_def Let_def split: if_splits)

lemma validateConfigAndVarReferences_severity:
  "f \<in> set (validateConfigAndVarReferences text n cfg vars) \<Longrightarrow> severity f = Warning"
  by (auto simp: validateConfigAndVarReferences_def checkConfigReference_def
      checkVarReference_def Let_def split: if_splits)

lemma checkListReference_severity:
  "f \<in> set (checkListReference content text n defined) \<Longrightarrow> severity f = Error"
  by (auto simp: checkListReference_def Let_def split: option.splits if_splits)

lemma checkCommonTypos_line: "f \<in> set (checkCommonTypos text n) \<Longrightarrow> line f = n"
  by (auto simp: checkCommonTypos_def typoFinding_def)

lemma validateLine_line:
  "f \<in> set (validateLine db defined cfg vars n text) \<Longrightarrow> line f = n"
  by (auto simp: validateLine_def split: if_splits
      dest: validateActionLine_line validateSpellNames_line
        validateConfigAndVarReferences_line checkCommonTypos_line)

lemma sorted_concat_lines:
  assumes "\<And>n t f. (n, t) \<in> set xs \<Longrightarrow> f \<in> set (g n t) \<Longrightarrow> line f = n"
    and "sorted (map fst xs)"
  shows "sorted (map line (concat (map (\<lambda>(n, t). g n t) xs)))"
  using assms
proof (induction xs)
  case Nil
  show ?case by simp
next
  case (Cons x xs)
  obtain n t where x: "x = (n, t)" by (cases x)
  have here: "line f = n" if "f \<in> set (g n t)" for f
    by (rule Cons.prems(1) [of n t]) (simp_all add: x that)
  have later: "n \<le> line f'" if "f' \<in> set (concat (map (\<lambda>(n, t). g n t) xs))" for f'
  proof -
    from that obtain n' t' where m: "(n', t') \<in> set xs" and f': "f' \<in> set (g n' t')" by auto
    have "line f' = n'" by (rule Cons.prems(1) [of n' t']) (simp_all add: m f')
    moreover have "n \<le> n'" using Cons.prems(2) m x by force
    ultimately show ?thesis by simp
  qed
  have tl: "sorted (map line (concat (map (\<lambda>(n, t). g n t) xs)))"
  proof (rule Cons.IH)
    show "line f = n" if "(n, t) \<in> set xs" "f \<in> set (g n t)" for n t f
      by (rule Cons.prems(1) [of n t]) (simp_all add: that)
    show "sorted (map fst xs)" using Cons.prems(2) by simp
  qed
  have same: "sorted (map line (g n t))"
    using here by (induction "g n t") (auto simp: sorted_wrt_iff_nth_less nth_mem)
  show ?case
    using tl later here same x by (auto simp: sorted_append)
qed

text \<open>
  The findings of line \<open>i\<close> in the result of a pass are those of \<open>validateLine\<close> on that
  line, with the three sets of the document.
\<close>

lemma concat_map_single:
  "i < n \<Longrightarrow> concat (map (\<lambda>k. if k = i then X else []) [0 ..< n]) = X"
  by (induction n) (auto simp: less_Suc_eq)

lemma filter_line_validateLine:
  "filter (\<lambda>f. line f = i) (validateLine db defined cfg vars k t)
     = (if k = i then validateLine db defined cfg vars k t else [])"
  using validateLine_line [of _ db defined cfg vars k t]
  by (auto simp: filter_empty_conv filter_id_conv)

lemma updateDiagnostics_at_line:
  assumes "i < length document"
  shows "filter (\<lambda>f. line f = i) (updateDiagnostics db document)
     = validateLine db (collectDefinedLists document) (collectDefinedConfigVars document)
         (collectDefinedVariables document) i (document ! i)"
proof -
  let ?v = "validateLine db (collectDefinedLists document) (collectDefinedConfigVars document)
         (collectDefinedVariables document)"
  have z: "zip [0 ..< length document] document = map (\<lambda>k. (k, document ! k)) [0 ..< length document]"
    by (rule nth_equalityI) simp_all
  have "filter (\<lambda>f. line f = i) (updateDiagnostics db document)
      = concat (map (\<lambda>k. filter (\<lambda>f. line f = i) (?v k (document ! k))) [0 ..< length document])"
    unfolding updateDiagnostics_def Let_def z
    by (simp add: filter_concat comp_def)
  also have "\<dots> = concat (map (\<lambda>k. if k = i then ?v i (document ! i) else []) [0 ..< length document])"
    by (rule arg_cong [where f = concat], rule map_cong) (auto simp: filter_line_validateLine)
  also have "\<dots> = ?v i (document ! i)"
    using assms by (rule concat_map_single)
  finally show ?thesis .
qed
text \<open>
  C10 (as amended). The findings of one pass are in the order of the lines: a finding is
  never followed by a finding of an earlier line. Within a line they come in the order of
  the checks, whatever their columns are.
\<close>

theorem findings_ordered_by_line: "sorted (map line (updateDiagnostics db document))"
  unfolding updateDiagnostics_def Let_def
  by (rule sorted_concat_lines) (auto dest: validateLine_line)

text \<open>
  C10 (as stated) fails: on this line the finding for \<open>and\<close>, at column 20, comes before
  the finding for \<open>or\<close>, at column 15, because \<open>checkCommonTypos\<close> goes through its patterns
  one after the other.
\<close>

theorem findings_not_ordered_by_column:
  "updateDiagnostics newSpellDatabase [''  - spell,if=a or b and c'']
     = [mkFinding 0 20 23 ''Use & for AND operator'' Warning,
        mkFinding 0 15 17 ''Use | for OR operator'' Warning]
   \<and> \<not> orderedByLineThenColumn (updateDiagnostics newSpellDatabase [''  - spell,if=a or b and c''])"
proof -
  have eq: "updateDiagnostics newSpellDatabase [''  - spell,if=a or b and c'']
     = [mkFinding 0 20 23 ''Use & for AND operator'' Warning,
        mkFinding 0 15 17 ''Use | for OR operator'' Warning]"
    by code_simp
  show ?thesis
    unfolding eq by (simp add: orderedByLineThenColumn_def mkFinding_def)
qed

section \<open>Scenarios on single action lines\<close>

lemma updateDiagnostics_single:
  "updateDiagnostics db [text] =
     validateLine db (collectDefinedLists [text]) (collectDefinedConfigVars [text])
       (collectDefinedVariables [text]) 0 text"
  by (simp add: updateDiagnostics_def)

lemma validateSpellNames_quiet:
  assumes "actionName text = Some a" and "isValidSpell db a \<or> a \<in> set specialActions"
    and "expressionMatches text = []"
  shows "validateSpellNames db text n = []"
  using assms
  by (auto simp: validateSpellNames_def checkActionName_def checkExpressionNames_def)

lemma validateLine_action:
  assumes "prefix ''#'' (trim text) = False" "(trim text = []) = False"
    and "prefix ''-'' (dropWhile isSpace text) = True"
    and "validateSpellNames db text n = []"
    and "validateConfigAndVarReferences text n cfg vars = []"
    and "checkCommonTypos text n = []"
  shows "validateLine db defined cfg vars n text = validateActionLine text n defined"
  using assms by (simp add: validateLine_def)

text \<open>
  C3 (as amended). With \<open>spell\<close> a valid name (or no table loaded): the line that ends in
  the comparison operator \<open>>\<close> gives no finding, since the check for a trailing operator
  looks for \<open>&\<close> and \<open>|\<close> only; the same line ending in \<open>&\<close> gives exactly one warning, for
  the trailing operator; and the line with the open parenthesis gives exactly one error,
  for unbalanced parentheses (1 opening, 0 closing).
\<close>

theorem dangling_operator_and_parentheses:
  assumes "isValidSpell db ''spell''"
  shows "updateDiagnostics db [''  - spell,if=energy>''] = []
    \<and> updateDiagnostics db [''  - spell,if=energy&'']
        = [mkFinding 0 0 20 ''Condition ends with an operator'' Warning]
    \<and> updateDiagnostics db [''  - spell,if=(energy>50'']
        = [mkFinding 0 0 23 ''Unbalanced parentheses: 1 opening, 0 closing'' Error]"
proof -
  let ?a = "''  - spell,if=energy>''" and ?b = "''  - spell,if=energy&''"
    and ?c = "''  - spell,if=(energy>50''"
  have sa: "validateSpellNames db ?a 0 = []"
    by (rule validateSpellNames_quiet [where a = "''spell''"]) (code_simp, simp add: assms, code_simp)
  have sb: "validateSpellNames db ?b 0 = []"
    by (rule validateSpellNames_quiet [where a = "''spell''"]) (code_simp, simp add: assms, code_simp)
  have sc: "validateSpellNames db ?c 0 = []"
    by (rule validateSpellNames_quiet [where a = "''spell''"]) (code_simp, simp add: assms, code_simp)
  have la: "validateLine db defined cfg vars 0 ?a = validateActionLine ?a 0 defined"
    for defined cfg vars
    by (rule validateLine_action [OF _ _ _ sa]; code_simp)
  have lb: "validateLine db defined cfg vars 0 ?b = validateActionLine ?b 0 defined"
    for defined cfg vars
    by (rule validateLine_action [OF _ _ _ sb]; code_simp)
  have lc: "validateLine db defined cfg vars 0 ?c = validateActionLine ?c 0 defined"
    for defined cfg vars
    by (rule validateLine_action [OF _ _ _ sc]; code_simp)
  have va: "validateActionLine ?a 0 defined = []" for defined
    by code_simp
  have vb: "validateActionLine ?b 0 defined
      = [mkFinding 0 0 20 ''Condition ends with an operator'' Warning]" for defined
    by code_simp
  have vc: "validateActionLine ?c 0 defined
      = [mkFinding 0 0 23 ''Unbalanced parentheses: 1 opening, 0 closing'' Error]" for defined
    by code_simp
  show ?thesis
    by (simp only: updateDiagnostics_single la lb lc va vb vc simp_thms)
qed

theorem dangling_operator_and_parentheses_witness:
  "updateDiagnostics newSpellDatabase [''  - spell,if=energy&'']
     = [mkFinding 0 0 20 ''Condition ends with an operator'' Warning]
   \<and> updateDiagnostics newSpellDatabase [''  - spell,if=(energy>50'']
     = [mkFinding 0 0 23 ''Unbalanced parentheses: 1 opening, 0 closing'' Error]"
proof -
  have "isValidSpell newSpellDatabase ''spell''"
    by (simp add: isValidSpell_def newSpellDatabase_def)
  from dangling_operator_and_parentheses [OF this] show ?thesis by simp
qed

text \<open>
  C3 (as stated) fails on its first line: the pass gives no finding at all there.
\<close>

theorem comparison_operator_not_flagged:
  "updateDiagnostics newSpellDatabase [''  - spell,if=energy>''] = []"
  by code_simp

section \<open>Severities of unresolved references\<close>

lemma map_constant:
  "\<forall>x \<in> set xs. f x = c \<Longrightarrow> map f xs = replicate (length xs) c"
  by (induction xs) simp_all

text \<open>
  C2 (as amended). Every finding for an unknown spell name, an unknown config key or an
  unknown variable is a warning; every finding for an unknown action-list name is an error.
\<close>

theorem unresolved_reference_severities:
  "(\<forall>f \<in> set (validateSpellNames db t lineNum). severity f = Warning)
   \<and> (\<forall>f \<in> set (validateConfigAndVarReferences t lineNum definedConfigVars definedVariables).
        severity f = Warning)
   \<and> (\<forall>f \<in> set (checkListReference content t lineNum definedLists). severity f = Error)"
  using validateSpellNames_severity validateConfigAndVarReferences_severity
    checkListReference_severity by blast

theorem unresolved_reference_severities_witness:
  "map severity (validateSpellNames \<lparr>spells = [], loaded = True\<rparr>
                   ''  - fireball,if=config.foo>var.bar'' 0) = [Warning]
   \<and> map severity (validateConfigAndVarReferences ''  - fireball,if=config.foo>var.bar'' 0 [] [])
       = [Warning, Warning]
   \<and> map severity (checkListReference ''call_action_list,name=missing_list''
                     ''  - call_action_list,name=missing_list'' 0 []) = [Error]"
proof -
  let ?db = "\<lparr>spells = [], loaded = True\<rparr>" and ?t = "''  - fireball,if=config.foo>var.bar''"
    and ?c = "''call_action_list,name=missing_list''"
    and ?u = "''  - call_action_list,name=missing_list''"
  note sev = unresolved_reference_severities [where db = "?db" and t = "?t" and lineNum = "0"
      and definedConfigVars = "[]" and definedVariables = "[]"]
  note sev' = unresolved_reference_severities [where t = "?u" and lineNum = "0"
      and content = "?c" and definedLists = "[]"]
  have l1: "length (validateSpellNames ?db ?t 0) = 1" by code_simp
  have l2: "length (validateConfigAndVarReferences ?t 0 [] []) = 2" by code_simp
  have l3: "length (checkListReference ?c ?u 0 []) = 1" by code_simp
  have "map severity (validateSpellNames ?db ?t 0) = replicate 1 Warning"
    using sev map_constant [of "validateSpellNames ?db ?t 0" severity Warning] l1 by simp
  moreover have "map severity (validateConfigAndVarReferences ?t 0 [] []) = replicate 2 Warning"
    using sev map_constant [of "validateConfigAndVarReferences ?t 0 [] []" severity Warning] l2
    by simp
  moreover have "map severity (checkListReference ?c ?u 0 []) = replicate 1 Error"
    using sev' map_constant [of "checkListReference ?c ?u 0 []" severity Error] l3 by simp
  ultimately show ?thesis by (simp add: numeral_2_eq_2)
qed

text \<open>
  C2 (as stated) fails for action lists: the one finding of this pass is the unknown list,
  and it is an error.
\<close>

theorem undefined_list_is_error:
  "updateDiagnostics newSpellDatabase [''  - call_action_list,name=missing_list'']
     = [mkFinding 0 26 38 ''Action list \"missing_list\" is not defined'' Error]"
  by code_simp

section \<open>Placeholders and spell identifiers in templated expressions\<close>

text \<open>
  C9. The findings of the loop over the expression patterns are those of the captured names
  that are no placeholder (\<open>SPELL\<close>, \<open>TALENT\<close>, \<open>VARNAME\<close>), not made of digits only, and not
  valid: a captured name that is a placeholder or a number gives no finding, whatever the
  table holds.
\<close>

theorem placeholders_and_ids_exempt:
  "checkExpressionNames db t lineNum =
     map (\<lambda>(ty, m). unknownSpellIn db lineNum ty m)
       (filter (\<lambda>(ty, m). \<not> isPlaceholder (mGroup m) \<and> \<not> isNumeric (mGroup m)
                          \<and> \<not> isValidSpell db (mGroup m))
          (expressionMatches t))
   \<and> (isPlaceholder (mGroup m) \<or> isNumeric (mGroup m) \<longrightarrow>
        checkExpressionName db lineNum ty m = [])"
  by (simp add: checkExpressionNames_filter checkExpressionName_cases)

theorem placeholders_and_ids_exempt_witness:
  "checkExpressionNames \<lparr>spells = [], loaded = True\<rparr>
     ''buff.SPELL.up&cooldown.12345.ready&dot.rend.ticking'' 0
     = [mkFinding 0 39 43 ''Unknown spell in dot: \"rend\"'' Warning]
   \<and> checkExpressionName \<lparr>spells = [], loaded = True\<rparr> 0 ''buff''
        \<lparr>mIndex = 0, mText = ''buff.SPELL.'', mGroup = ''SPELL''\<rparr> = []
   \<and> checkExpressionName \<lparr>spells = [], loaded = True\<rparr> 0 ''cooldown''
        \<lparr>mIndex = 14, mText = ''cooldown.12345.'', mGroup = ''12345''\<rparr> = []"
proof -
  let ?db = "\<lparr>spells = [], loaded = True\<rparr>"
    and ?t = "''buff.SPELL.up&cooldown.12345.ready&dot.rend.ticking''"
  let ?m1 = "\<lparr>mIndex = 0, mText = ''buff.SPELL.'', mGroup = ''SPELL''\<rparr>"
    and ?m2 = "\<lparr>mIndex = 35, mText = ''dot.rend.'', mGroup = ''rend''\<rparr>"
    and ?m3 = "\<lparr>mIndex = 14, mText = ''cooldown.12345.'', mGroup = ''12345''\<rparr>"
  have ms: "expressionMatches ?t = [(''buff'', ?m1), (''dot'', ?m2), (''cooldown'', ?m3)]"
    by code_simp
  have p: "isPlaceholder ''SPELL''" "\<not> isPlaceholder ''rend''" "\<not> isPlaceholder ''12345''"
    by (simp_all add: isPlaceholder_def)
  have n: "isNumeric ''12345''" "\<not> isNumeric ''rend''"
    by (simp_all add: isNumeric_def isDigit_def)
  have v: "\<not> isValidSpell ?db ''rend''" by (simp add: isValidSpell_def mapHas_def)
  have u: "unknownSpellIn ?db 0 ''dot'' ?m2
      = mkFinding 0 39 43 ''Unknown spell in dot: \"rend\"'' Warning"
    by code_simp
  have a: "checkExpressionNames ?db ?t 0
      = [mkFinding 0 39 43 ''Unknown spell in dot: \"rend\"'' Warning]"
    using placeholders_and_ids_exempt [where db = "?db" and t = "?t" and lineNum = "0"]
    by (simp add: ms p n v u)
  have b: "checkExpressionName ?db 0 ''buff'' ?m1 = []"
    using placeholders_and_ids_exempt [where db = "?db" and lineNum = "0" and m = "?m1" and ty = "''buff''"] p
    by simp
  have c: "checkExpressionName ?db 0 ''cooldown'' ?m3 = []"
    using placeholders_and_ids_exempt [where db = "?db" and lineNum = "0" and m = "?m3" and ty = "''cooldown''"] n
    by simp
  from a b c show ?thesis by simp
qed
section \<open>Declared lists and references to them\<close>

lemma listEntry_my_list: "listEntry ''  my_list:'' = Some ''my_list''"
  by code_simp

lemma my_list_line: "\<not> isSectionHeader ''lists'' ''  my_list:''" "\<not> isRootKey ''  my_list:''"
  "isSectionHeader ''lists'' ''lists:''"
  by code_simp+

text \<open>
  C5. In a document where the line \<open>  my_list:\<close> comes after a line \<open>lists:\<close> with no
  root-level key between them, \<open>my_list\<close> is in the set of lists; with the set of that
  document, the action line that calls \<open>my_list\<close> gives no finding, and the action line that
  calls \<open>not_declared\<close>, when that name is not declared (it is not a shared list), gives
  exactly one finding: the error that names \<open>not_declared\<close>. (By \<open>updateDiagnostics_at_line\<close>
  these are the findings of the pass on such a line of the document.)
\<close>

theorem declared_list_round_trip:
  assumes "list_all (\<lambda>l. \<not> isRootKey l) mid"
    and "document = pre @ [''lists:''] @ mid @ [''  my_list:''] @ post"
  shows "''my_list'' \<in> set (collectDefinedLists document)
     \<and> validateLine db (collectDefinedLists document) definedConfigVars definedVariables lineNum
         ''  - call_action_list,name=my_list'' = []
     \<and> (''not_declared'' \<notin> set (collectDefinedLists document) \<longrightarrow>
          validateLine db (collectDefinedLists document) definedConfigVars definedVariables lineNum
            ''  - call_action_list,name=not_declared''
          = [mkFinding lineNum 26 38
               (''Action list \"not_declared\" is not defined. Available lists: '' @
                joinWith '', '' (collectDefinedLists document)) Error])"
proof -
  let ?defined = "collectDefinedLists document"
  let ?a = "''  - call_action_list,name=my_list''"
    and ?b = "''  - call_action_list,name=not_declared''"
  have decl: "''my_list'' \<in> set ?defined"
    unfolding collectDefinedLists_def assms(2)
    by (rule scanSection_declared [where entry = listEntry and l = "''  my_list:''",
          OF my_list_line(3) assms(1) my_list_line(1,2) listEntry_my_list])
  have sp: "''call_action_list'' \<in> set specialActions" by code_simp
  have sa: "validateSpellNames db ?a lineNum = []"
    by (rule validateSpellNames_quiet [where a = "''call_action_list''"])
       (code_simp, simp only: sp simp_thms, code_simp)
  have sb: "validateSpellNames db ?b lineNum = []"
    by (rule validateSpellNames_quiet [where a = "''call_action_list''"])
       (code_simp, simp only: sp simp_thms, code_simp)
  have la: "validateLine db ?defined definedConfigVars definedVariables lineNum ?a
      = validateActionLine ?a lineNum ?defined"
    by (rule validateLine_action [OF _ _ _ sa]; code_simp)
  have lb: "validateLine db ?defined definedConfigVars definedVariables lineNum ?b
      = validateActionLine ?b lineNum ?defined"
    by (rule validateLine_action [OF _ _ _ sb]; code_simp)
  have va: "validateActionLine ?a lineNum ?defined = []"
    using decl by (code_simp, simp)
  have ne: "0 < length ?defined" using decl by (cases ?defined) simp_all
  have vb: "validateActionLine ?b lineNum ?defined
      = [mkFinding lineNum 26 38
           (''Action list \"not_declared\" is not defined. Available lists: '' @
            joinWith '', '' ?defined) Error]"
    if "''not_declared'' \<notin> set ?defined"
    using that ne by (code_simp, simp add: sharedLists_def mkFinding_def)
  show ?thesis
    using decl la lb va vb by simp
qed

theorem declared_list_round_trip_witness:
  "collectDefinedLists [''lists:'', ''  my_list:''] = [''my_list'']
   \<and> validateLine newSpellDatabase [''my_list''] [] [] 2 ''  - call_action_list,name=my_list'' = []
   \<and> validateLine newSpellDatabase [''my_list''] [] [] 3 ''  - call_action_list,name=not_declared''
       = [mkFinding 3 26 38
            ''Action list \"not_declared\" is not defined. Available lists: my_list'' Error]"
proof -
  have c: "collectDefinedLists [''lists:'', ''  my_list:''] = [''my_list'']" by code_simp
  have m: "list_all (\<lambda>l. \<not> isRootKey l) []" by simp
  have d: "[''lists:'', ''  my_list:''] = [] @ [''lists:''] @ [] @ [''  my_list:''] @ []" by simp
  show ?thesis
    using declared_list_round_trip [OF m d, of newSpellDatabase "[]" "[]" 2]
      declared_list_round_trip [OF m d, of newSpellDatabase "[]" "[]" 3]
    by (simp add: c)
qed

section \<open>The template resolver of the hover provider (matchTemplate)\<close>

text \<open>
  The catalog \<open>EXPRESSIONS\<close> of \<open>expressions.ts\<close>, entry by entry in the order of the source:
  the key and the interface \<open>ExpressionInfo\<close> (its field \<open>type\<close> is \<open>exprType\<close> here). No key
  occurs twice.
\<close>

record ExpressionInfo =
  exprType :: string
  description :: string
  example :: "string option"

definition EXPRESSIONS :: "(string \<times> ExpressionInfo) list" where
  "EXPRESSIONS =
     [
      (''energy'',
       \<lparr>exprType = ''resource'', description = ''Current energy value'',
          example = Some ''if=energy>=50''\<rparr>),
      (''energy.max'',
       \<lparr>exprType = ''resource'', description = ''Maximum energy'',
          example = Some ''if=energy=energy.max''\<rparr>),
      (''energy.deficit'',
       \<lparr>exprType = ''resource'', description = ''Energy deficit (max - current)'',
          example = Some ''if=energy.deficit<20''\<rparr>),
      (''energy.pct'',
       \<lparr>exprType = ''resource'', description = ''Energy percentage (0-100)'',
          example = Some ''if=energy.pct>50''\<rparr>),
      (''energy.regen'',
       \<lparr>exprType = ''resource'', description = ''Energy regeneration rate'',
          example = Some ''if=energy.regen>15''\<rparr>),
      (''energy.time_to_max'',
       \<lparr>exprType = ''resource'', description = ''Seconds until energy is full'',
          example = Some ''if=energy.time_to_max<3''\<rparr>),
      (''rage'',
       \<lparr>exprType = ''resource'', description = ''Current rage value'',
          example = Some ''if=rage>=30''\<rparr>),
      (''rage.max'',
       \<lparr>exprType = ''resource'', description = ''Maximum rage'',
          example = Some ''if=rage=rage.max''\<rparr>),
      (''rage.deficit'',
       \<lparr>exprType = ''resource'', description = ''Rage deficit'',
          example = Some ''if=rage.deficit<20''\<rparr>),
      (''runic_power'',
       \<lparr>exprType = ''resource'', description = ''Current runic power'',
          example = Some ''if=runic_power>=80''\<rparr>),
      (''runic_power.max'',
       \<lparr>exprType = ''resource'', description = ''Maximum runic power'',
          example = None\<rparr>),
      (''runic_power.deficit'',
       \<lparr>exprType = ''resource'', description = ''Runic power deficit'',
          example = None\<rparr>),
      (''rune'',
       \<lparr>exprType = ''resource'', description = ''Available rune count'',
          example = Some ''if=rune>=3''\<rparr>),
      (''focus'',
       \<lparr>exprType = ''resource'', description = ''Current focus value'',
          example = Some ''if=focus>=50''\<rparr>),
      (''focus.max'',
       \<lparr>exprType = ''resource'', description = ''Maximum focus'',
          example = None\<rparr>),
      (''focus.deficit'',
       \<lparr>exprType = ''resource'', description = ''Focus deficit'',
          example = None\<rparr>),
      (''focus.pct'',
       \<lparr>exprType = ''resource'', description = ''Focus percentage'',
          example = None\<rparr>),
      (''focus.regen'',
       \<lparr>exprType = ''resource'', description = ''Focus regeneration rate'',
          example = None\<rparr>),
      (''focus.time_to_max'',
       \<lparr>exprType = ''resource'', description = ''Seconds until focus is full'',
          example = None\<rparr>),
      (''mana'',
       \<lparr>exprType = ''resource'', description = ''Current mana value'',
          example = Some ''if=mana>=1000''\<rparr>),
      (''mana.max'',
       \<lparr>exprType = ''resource'', description = ''Maximum mana'',
          example = None\<rparr>),
      (''mana.deficit'',
       \<lparr>exprType = ''resource'', description = ''Mana deficit'',
          example = None\<rparr>),
      (''mana.pct'',
       \<lparr>exprType = ''resource'', description = ''Mana percentage'',
          example = Some ''if=mana.pct>30''\<rparr>),
      (''mana.regen'',
       \<lparr>exprType = ''resource'', description = ''Mana regeneration rate'',
          example = None\<rparr>),
      (''mana.time_to_max'',
       \<lparr>exprType = ''resource'', description = ''Seconds until mana is full'',
          example = None\<rparr>),
      (''combo_points'',
       \<lparr>exprType = ''resource'', description = ''Current combo points'',
          example = Some ''if=combo_points>=5''\<rparr>),
      (''combo_points.max'',
       \<lparr>exprType = ''resource'', description = ''Maximum combo points'',
          example = None\<rparr>),
      (''combo_points.deficit'',
       \<lparr>exprType = ''resource'', description = ''Combo points deficit'',
          example = None\<rparr>),
      (''soul_shards'',
       \<lparr>exprType = ''resource'', description = ''Current soul shards (Warlock)'',
          example = None\<rparr>),
      (''holy_power'',
       \<lparr>exprType = ''resource'', description = ''Current holy power (Paladin)'',
          example = None\<rparr>),
      (''chi'',
       \<lparr>exprType = ''resource'', description = ''Current chi (Monk)'',
          example = None\<rparr>),
      (''insanity'',
       \<lparr>exprType = ''resource'', description = ''Current insanity (Shadow Priest)'',
          example = None\<rparr>),
      (''stagger'',
       \<lparr>exprType = ''resource'', description = ''Current stagger amount (Brewmaster)'',
          example = None\<rparr>),
      (''stagger.pct'',
       \<lparr>exprType = ''resource'', description = ''Stagger as % of max health'',
          example = Some ''if=stagger.pct>60''\<rparr>),
      (''arcane_charges'',
       \<lparr>exprType = ''resource'', description = ''Current arcane charges (Arcane Mage)'',
          example = None\<rparr>),
      (''fury'',
       \<lparr>exprType = ''resource'', description = ''Current fury (Demon Hunter)'',
          example = None\<rparr>),
      (''pain'',
       \<lparr>exprType = ''resource'', description = ''Current pain (Vengeance DH)'',
          example = None\<rparr>),
      (''maelstrom'',
       \<lparr>exprType = ''resource'', description = ''Current maelstrom (Enhancement Shaman)'',
          example = None\<rparr>),
      (''astral_power'',
       \<lparr>exprType = ''resource'', description = ''Current astral power (Balance Druid)'',
          example = None\<rparr>),
      (''essence'',
       \<lparr>exprType = ''resource'', description = ''Current essence (Evoker)'',
          example = None\<rparr>),
      (''health'',
       \<lparr>exprType = ''health'', description = ''Player health percentage (0-100)'',
          example = Some ''if=health<50''\<rparr>),
      (''health.pct'',
       \<lparr>exprType = ''health'', description = ''Player health percentage'',
          example = Some ''if=health.pct<=30''\<rparr>),
      (''health.max'',
       \<lparr>exprType = ''health'', description = ''Player maximum health'',
          example = None\<rparr>),
      (''health.deficit'',
       \<lparr>exprType = ''health'', description = ''Player missing health amount'',
          example = None\<rparr>),
      (''player.health'',
       \<lparr>exprType = ''health'', description = ''Player health percentage'',
          example = None\<rparr>),
      (''player.health.pct'',
       \<lparr>exprType = ''health'', description = ''Player health percentage'',
          example = None\<rparr>),
      (''player.health.max'',
       \<lparr>exprType = ''health'', description = ''Player maximum health'',
          example = None\<rparr>),
      (''player.health.deficit'',
       \<lparr>exprType = ''health'', description = ''Player missing health'',
          example = None\<rparr>),
      (''target.health'',
       \<lparr>exprType = ''health'', description = ''Target health percentage'',
          example = None\<rparr>),
      (''target.health.pct'',
       \<lparr>exprType = ''health'', description = ''Target health percentage'',
          example = Some ''if=target.health.pct<=20''\<rparr>),
      (''target.time_to_die'',
       \<lparr>exprType = ''health'', description = ''Estimated seconds until target dies'',
          example = Some ''if=target.time_to_die>15''\<rparr>),
      (''time_to_die'',
       \<lparr>exprType = ''health'', description = ''Alias for target.time_to_die'',
          example = None\<rparr>),
      (''fight_remains'',
       \<lparr>exprType = ''health'', description = ''Estimated time remaining in fight'',
          example = None\<rparr>),
      (''focus.health'',
       \<lparr>exprType = ''health'', description = ''Focus target health percentage'',
          example = None\<rparr>),
      (''mouseover.health'',
       \<lparr>exprType = ''health'', description = ''Mouseover health percentage'',
          example = None\<rparr>),
      (''pet.health'',
       \<lparr>exprType = ''health'', description = ''Pet health percentage'',
          example = Some ''if=pet.health<40''\<rparr>),
      (''buff.SPELL.up'',
       \<lparr>exprType = ''buff'', description = ''Buff is active (1 if true, 0 if false)'',
          example = Some ''if=buff.bloodlust.up''\<rparr>),
      (''buff.SPELL.down'',
       \<lparr>exprType = ''buff'', description = ''Buff is NOT active'',
          example = Some ''if=buff.shield.down''\<rparr>),
      (''buff.SPELL.remains'',
       \<lparr>exprType = ''buff'', description = ''Time remaining in seconds'',
          example = Some ''if=buff.haste_buff.remains<5''\<rparr>),
      (''buff.SPELL.stack'',
       \<lparr>exprType = ''buff'', description = ''Current stack count'',
          example = Some ''if=buff.power_stacks.stack>=3''\<rparr>),
      (''buff.SPELL.duration'',
       \<lparr>exprType = ''buff'', description = ''Base duration of the buff'',
          example = None\<rparr>),
      (''buff.SPELL.refreshable'',
       \<lparr>exprType = ''buff'', description = ''Buff can be refreshed (pandemic window)'',
          example = None\<rparr>),
      (''buff.SPELL.react'',
       \<lparr>exprType = ''buff'', description = ''Buff is active (same as .up, for procs)'',
          example = None\<rparr>),
      (''debuff.SPELL.up'',
       \<lparr>exprType = ''debuff'', description = ''Debuff is active on target'',
          example = Some ''if=debuff.vulnerability.up''\<rparr>),
      (''debuff.SPELL.down'',
       \<lparr>exprType = ''debuff'', description = ''Debuff is NOT on target'',
          example = Some ''if=debuff.curse.down''\<rparr>),
      (''debuff.SPELL.remains'',
       \<lparr>exprType = ''debuff'', description = ''Time remaining'',
          example = Some ''if=debuff.poison.remains<3''\<rparr>),
      (''debuff.SPELL.stack'',
       \<lparr>exprType = ''debuff'', description = ''Stack count'',
          example = Some ''if=debuff.wound.stack<5''\<rparr>),
      (''debuff.SPELL.refreshable'',
       \<lparr>exprType = ''debuff'', description = ''Debuff can be refreshed'',
          example = None\<rparr>),
      (''debuff.SPELL.ticking'',
       \<lparr>exprType = ''debuff'', description = ''Debuff is active (alias of .up)'',
          example = None\<rparr>),
      (''dot.SPELL.ticking'',
       \<lparr>exprType = ''dot'', description = ''DoT is active'',
          example = Some ''if=dot.corruption.ticking''\<rparr>),
      (''dot.SPELL.remains'',
       \<lparr>exprType = ''dot'', description = ''DoT time remaining'',
          example = Some ''if=dot.corruption.remains<3''\<rparr>),
      (''dot.SPELL.refreshable'',
       \<lparr>exprType = ''dot'', description = ''DoT can be refreshed (pandemic)'',
          example = None\<rparr>),
      (''dot.SPELL.stack'',
       \<lparr>exprType = ''dot'', description = ''DoT stack count'',
          example = None\<rparr>),
      (''active_dot.SPELL'',
       \<lparr>exprType = ''dot'', description = ''Count of enemies with your DoT'',
          example = Some ''if=active_dot.corruption>=3''\<rparr>),
      (''cooldown.SPELL.ready'',
       \<lparr>exprType = ''cooldown'', description = ''Spell is ready (off cooldown)'',
          example = Some ''if=cooldown.big_damage.ready''\<rparr>),
      (''cooldown.SPELL.up'',
       \<lparr>exprType = ''cooldown'', description = ''Same as .ready'',
          example = None\<rparr>),
      (''cooldown.SPELL.down'',
       \<lparr>exprType = ''cooldown'', description = ''Spell is on cooldown'',
          example = None\<rparr>),
      (''cooldown.SPELL.remains'',
       \<lparr>exprType = ''cooldown'', description = ''Time until ready'',
          example = Some ''if=cooldown.burst.remains<5''\<rparr>),
      (''cooldown.SPELL.charges'',
       \<lparr>exprType = ''cooldown'', description = ''Current charge count'',
          example = Some ''if=cooldown.blink.charges>=1''\<rparr>),
      (''cooldown.SPELL.max_charges'',
       \<lparr>exprType = ''cooldown'', description = ''Maximum charges'',
          example = None\<rparr>),
      (''cooldown.SPELL.full_recharge_time'',
       \<lparr>exprType = ''cooldown'', description = ''Time until all charges restored'',
          example = None\<rparr>),
      (''cooldown.SPELL.charges_fractional'',
       \<lparr>exprType = ''cooldown'', description = ''Charges including partial progress'',
          example = None\<rparr>),
      (''usable.SPELL'',
       \<lparr>exprType = ''spell'', description = ''Spell is usable (resources + off CD)'',
          example = Some ''if=usable.expensive_ability''\<rparr>),
      (''range.SPELL.target'',
       \<lparr>exprType = ''range'', description = ''Spell is in range for target'',
          example = Some ''if=range.snipe.target''\<rparr>),
      (''range.SPELL.focus'',
       \<lparr>exprType = ''range'', description = ''Spell is in range for focus'',
          example = None\<rparr>),
      (''range.SPELL.mouseover'',
       \<lparr>exprType = ''range'', description = ''Spell is in range for mouseover'',
          example = None\<rparr>),
      (''talent.TALENT'',
       \<lparr>exprType = ''talent'', description = ''Talent is selected (1 if true)'',
          example = Some ''if=talent.improved_spell''\<rparr>),
      (''talent.TALENT.enabled'',
       \<lparr>exprType = ''talent'', description = ''Talent is selected'',
          example = None\<rparr>),
      (''talent.TALENT.rank'',
       \<lparr>exprType = ''talent'', description = ''Talent rank (0 if not selected)'',
          example = Some ''if=talent.power_talent.rank>=2''\<rparr>),
      (''action.SPELL.charges'',
       \<lparr>exprType = ''action'', description = ''Action charges'',
          example = None\<rparr>),
      (''action.SPELL.cast_time'',
       \<lparr>exprType = ''action'', description = ''Cast time in seconds'',
          example = None\<rparr>),
      (''action.SPELL.execute_time'',
       \<lparr>exprType = ''action'', description = ''Max of cast_time and GCD'',
          example = None\<rparr>),
      (''gcd'',
       \<lparr>exprType = ''gcd'', description = ''Current GCD duration'',
          example = Some ''if=gcd<1.2''\<rparr>),
      (''gcd.max'',
       \<lparr>exprType = ''gcd'', description = ''Maximum GCD (usually 1.5s)'',
          example = None\<rparr>),
      (''gcd.remains'',
       \<lparr>exprType = ''gcd'', description = ''Time until GCD expires'',
          example = Some ''if=gcd.remains<0.2''\<rparr>),
      (''player.gcd'',
       \<lparr>exprType = ''gcd'', description = ''Current GCD duration'',
          example = None\<rparr>),
      (''player.gcd.remains'',
       \<lparr>exprType = ''gcd'', description = ''Time until GCD expires'',
          example = None\<rparr>),
      (''prev_gcd.1.SPELL'',
       \<lparr>exprType = ''prev'', description = ''Last GCD was this spell'',
          example = Some ''if=prev_gcd.1.setup_spell''\<rparr>),
      (''prev_gcd.2.SPELL'',
       \<lparr>exprType = ''prev'', description = ''Two GCDs ago was this spell'',
          example = None\<rparr>),
      (''prev_gcd.3.SPELL'',
       \<lparr>exprType = ''prev'', description = ''Three GCDs ago was this spell'',
          example = None\<rparr>),
      (''player.dead'',
       \<lparr>exprType = ''state'', description = ''Player is dead'',
          example = None\<rparr>),
      (''player.alive'',
       \<lparr>exprType = ''state'', description = ''Player is alive'',
          example = None\<rparr>),
      (''player.moving'',
       \<lparr>exprType = ''state'', description = ''Player is moving'',
          example = Some ''if=!player.moving''\<rparr>),
      (''player.moving.time'',
       \<lparr>exprType = ''state'', description = ''Seconds player has been moving'',
          example = None\<rparr>),
      (''player.standing'',
       \<lparr>exprType = ''state'', description = ''Player is standing still'',
          example = None\<rparr>),
      (''player.standing.time'',
       \<lparr>exprType = ''state'', description = ''Seconds standing still'',
          example = None\<rparr>),
      (''player.mounted'',
       \<lparr>exprType = ''state'', description = ''Player is mounted'',
          example = None\<rparr>),
      (''player.in_vehicle'',
       \<lparr>exprType = ''state'', description = ''Player is in a vehicle'',
          example = None\<rparr>),
      (''player.casting'',
       \<lparr>exprType = ''state'', description = ''Player is casting'',
          example = Some ''if=!player.casting''\<rparr>),
      (''player.channeling'',
       \<lparr>exprType = ''state'', description = ''Player is channeling'',
          example = None\<rparr>),
      (''player.casting.spell'',
       \<lparr>exprType = ''state'', description = ''Currently casting spell ID'',
          example = None\<rparr>),
      (''player.casting.remains'',
       \<lparr>exprType = ''state'', description = ''Time remaining on cast'',
          example = None\<rparr>),
      (''player.casting.elapsed'',
       \<lparr>exprType = ''state'', description = ''Time spent casting'',
          example = None\<rparr>),
      (''player.combat'',
       \<lparr>exprType = ''state'', description = ''Player is in combat'',
          example = None\<rparr>),
      (''player.combat.time'',
       \<lparr>exprType = ''state'', description = ''Time in combat (seconds)'',
          example = Some ''if=player.combat.time<5''\<rparr>),
      (''player.empower_stage'',
       \<lparr>exprType = ''state'', description = ''Evoker empower stage (1-4)'',
          example = Some ''if=player.empower_stage>=2''\<rparr>),
      (''player.burst.active'',
       \<lparr>exprType = ''state'', description = ''Any burst buff is active'',
          example = Some ''if=player.burst.active''\<rparr>),
      (''player.burst.count'',
       \<lparr>exprType = ''state'', description = ''Number of active burst buffs'',
          example = None\<rparr>),
      (''player.stunned'',
       \<lparr>exprType = ''cc'', description = ''Player is stunned'',
          example = Some ''if=player.stunned''\<rparr>),
      (''player.stunned.remains'',
       \<lparr>exprType = ''cc'', description = ''Stun duration remaining'',
          example = None\<rparr>),
      (''player.rooted'',
       \<lparr>exprType = ''cc'', description = ''Player is rooted'',
          example = None\<rparr>),
      (''player.rooted.remains'',
       \<lparr>exprType = ''cc'', description = ''Root duration remaining'',
          example = None\<rparr>),
      (''player.feared'',
       \<lparr>exprType = ''cc'', description = ''Player is feared'',
          example = None\<rparr>),
      (''player.silenced'',
       \<lparr>exprType = ''cc'', description = ''Player is silenced'',
          example = None\<rparr>),
      (''player.incapacitated'',
       \<lparr>exprType = ''cc'', description = ''Player is incapacitated'',
          example = None\<rparr>),
      (''player.charmed'',
       \<lparr>exprType = ''cc'', description = ''Player is mind controlled'',
          example = None\<rparr>),
      (''player.disarmed'',
       \<lparr>exprType = ''cc'', description = ''Player is disarmed'',
          example = None\<rparr>),
      (''player.cc'',
       \<lparr>exprType = ''cc'', description = ''Player cannot act (stunned/feared/etc)'',
          example = Some ''if=player.cc''\<rparr>),
      (''player.tank'',
       \<lparr>exprType = ''role'', description = ''Player is a tank'',
          example = Some ''if=player.tank''\<rparr>),
      (''player.healer'',
       \<lparr>exprType = ''role'', description = ''Player is a healer'',
          example = None\<rparr>),
      (''player.dps'',
       \<lparr>exprType = ''role'', description = ''Player is DPS'',
          example = None\<rparr>),
      (''player.melee'',
       \<lparr>exprType = ''role'', description = ''Player uses melee attacks'',
          example = None\<rparr>),
      (''player.ranged'',
       \<lparr>exprType = ''role'', description = ''Player uses ranged attacks'',
          example = None\<rparr>),
      (''player.evoker'',
       \<lparr>exprType = ''role'', description = ''Player is an Evoker'',
          example = None\<rparr>),
      (''player.haste_pct'',
       \<lparr>exprType = ''stat'', description = ''Haste percentage'',
          example = Some ''if=player.haste_pct>=30''\<rparr>),
      (''player.haste'',
       \<lparr>exprType = ''stat'', description = ''Haste percentage (alias)'',
          example = None\<rparr>),
      (''player.crit_pct'',
       \<lparr>exprType = ''stat'', description = ''Critical strike percentage'',
          example = None\<rparr>),
      (''player.crit'',
       \<lparr>exprType = ''stat'', description = ''Critical strike percentage (alias)'',
          example = None\<rparr>),
      (''player.versa_pct'',
       \<lparr>exprType = ''stat'', description = ''Versatility percentage'',
          example = None\<rparr>),
      (''player.versatility'',
       \<lparr>exprType = ''stat'', description = ''Versatility percentage (alias)'',
          example = None\<rparr>),
      (''player.mastery_pct'',
       \<lparr>exprType = ''stat'', description = ''Mastery percentage'',
          example = None\<rparr>),
      (''player.mastery'',
       \<lparr>exprType = ''stat'', description = ''Mastery percentage (alias)'',
          example = None\<rparr>),
      (''player.indungeon'',
       \<lparr>exprType = ''zone'', description = ''Player is in a dungeon'',
          example = None\<rparr>),
      (''player.inraid'',
       \<lparr>exprType = ''zone'', description = ''Player is in a raid'',
          example = None\<rparr>),
      (''player.inpvecontent'',
       \<lparr>exprType = ''zone'', description = ''In dungeon, raid, or delve'',
          example = None\<rparr>),
      (''player.inmythicplus'',
       \<lparr>exprType = ''zone'', description = ''In active M+ keystone'',
          example = Some ''if=player.inmythicplus''\<rparr>),
      (''player.inarena'',
       \<lparr>exprType = ''zone'', description = ''In arena'',
          example = None\<rparr>),
      (''player.inpvp'',
       \<lparr>exprType = ''zone'', description = ''In battleground'',
          example = None\<rparr>),
      (''player.ininstancedpvp'',
       \<lparr>exprType = ''zone'', description = ''In arena or battleground'',
          example = None\<rparr>),
      (''player.indelve'',
       \<lparr>exprType = ''zone'', description = ''In a delve'',
          example = None\<rparr>),
      (''player.inscenario'',
       \<lparr>exprType = ''zone'', description = ''In a scenario'',
          example = None\<rparr>),
      (''player.keystonelevel'',
       \<lparr>exprType = ''zone'', description = ''Current M+ keystone level'',
          example = Some ''if=player.keystonelevel>=15''\<rparr>),
      (''player.boss_fight'',
       \<lparr>exprType = ''zone'', description = ''Boss unit frames exist'',
          example = None\<rparr>),
      (''player.has_magic_debuff'',
       \<lparr>exprType = ''debuff'', description = ''Player has any magic debuff'',
          example = None\<rparr>),
      (''player.has_curse'',
       \<lparr>exprType = ''debuff'', description = ''Player has any curse debuff'',
          example = None\<rparr>),
      (''player.has_disease'',
       \<lparr>exprType = ''debuff'', description = ''Player has any disease debuff'',
          example = None\<rparr>),
      (''player.has_poison'',
       \<lparr>exprType = ''debuff'', description = ''Player has any poison debuff'',
          example = None\<rparr>),
      (''target.exists'',
       \<lparr>exprType = ''target'', description = ''Target exists'',
          example = Some ''if=target.exists''\<rparr>),
      (''target.alive'',
       \<lparr>exprType = ''target'', description = ''Target is alive'',
          example = None\<rparr>),
      (''target.dead'',
       \<lparr>exprType = ''target'', description = ''Target is dead'',
          example = None\<rparr>),
      (''target.enemy'',
       \<lparr>exprType = ''target'', description = ''Target is an enemy'',
          example = None\<rparr>),
      (''target.friendly'',
       \<lparr>exprType = ''target'', description = ''Target is friendly'',
          example = None\<rparr>),
      (''target.boss'',
       \<lparr>exprType = ''target'', description = ''Target is a boss'',
          example = Some ''if=target.boss''\<rparr>),
      (''target.range'',
       \<lparr>exprType = ''target'', description = ''Distance to target in yards'',
          example = Some ''if=target.range<8''\<rparr>),
      (''target.moving'',
       \<lparr>exprType = ''target'', description = ''Target is moving'',
          example = None\<rparr>),
      (''target.casting'',
       \<lparr>exprType = ''target'', description = ''Target is casting'',
          example = None\<rparr>),
      (''target.channeling'',
       \<lparr>exprType = ''target'', description = ''Target is channeling'',
          example = None\<rparr>),
      (''target.casting.spell'',
       \<lparr>exprType = ''target'', description = ''Target casting spell ID'',
          example = None\<rparr>),
      (''target.casting.remains'',
       \<lparr>exprType = ''target'', description = ''Target cast time remaining'',
          example = None\<rparr>),
      (''target.casting.elapsed'',
       \<lparr>exprType = ''target'', description = ''Target cast time elapsed'',
          example = None\<rparr>),
      (''target.casting.interruptible'',
       \<lparr>exprType = ''target'', description = ''Target cast can be interrupted'',
          example = Some ''if=target.casting.interruptible''\<rparr>),
      (''target.casting.important'',
       \<lparr>exprType = ''target'', description = ''Target cast is in _interrupts.yaml'',
          example = None\<rparr>),
      (''target.casting.targeting_me'',
       \<lparr>exprType = ''target'', description = ''Target cast is targeting player'',
          example = None\<rparr>),
      (''target.valid'',
       \<lparr>exprType = ''target'', description = ''Comprehensive target check (exists, enemy, alive, combat)'',
          example = None\<rparr>),
      (''target.npcid'',
       \<lparr>exprType = ''target'', description = ''NPC ID from GUID'',
          example = None\<rparr>),
      (''target.bypass_combat'',
       \<lparr>exprType = ''target'', description = ''NPC bypasses combat checks (from _npcdata.yaml)'',
          example = None\<rparr>),
      (''target.should_stun'',
       \<lparr>exprType = ''target'', description = ''NPC should be stunned (from _npcdata.yaml)'',
          example = None\<rparr>),
      (''target.should_slow'',
       \<lparr>exprType = ''target'', description = ''NPC should be slowed (from _npcdata.yaml)'',
          example = None\<rparr>),
      (''target.has_stealable'',
       \<lparr>exprType = ''target'', description = ''Target has any stealable buff'',
          example = None\<rparr>),
      (''target.has_magic_buff'',
       \<lparr>exprType = ''target'', description = ''Target has any magic buff'',
          example = None\<rparr>),
      (''target.has_enrage'',
       \<lparr>exprType = ''target'', description = ''Target has an enrage effect'',
          example = None\<rparr>),
      (''focus.exists'',
       \<lparr>exprType = ''unit'', description = ''Focus target exists'',
          example = None\<rparr>),
      (''focus.alive'',
       \<lparr>exprType = ''unit'', description = ''Focus is alive'',
          example = None\<rparr>),
      (''focus.enemy'',
       \<lparr>exprType = ''unit'', description = ''Focus is an enemy'',
          example = None\<rparr>),
      (''focus.friendly'',
       \<lparr>exprType = ''unit'', description = ''Focus is friendly'',
          example = None\<rparr>),
      (''focus.range'',
       \<lparr>exprType = ''unit'', description = ''Distance to focus'',
          example = None\<rparr>),
      (''focus.casting'',
       \<lparr>exprType = ''unit'', description = ''Focus is casting'',
          example = None\<rparr>),
      (''focus.casting.interruptible'',
       \<lparr>exprType = ''unit'', description = ''Focus cast can be interrupted'',
          example = None\<rparr>),
      (''focus.casting.remains'',
       \<lparr>exprType = ''unit'', description = ''Focus cast time remaining'',
          example = None\<rparr>),
      (''mouseover.exists'',
       \<lparr>exprType = ''unit'', description = ''Mouseover unit exists'',
          example = None\<rparr>),
      (''mouseover.alive'',
       \<lparr>exprType = ''unit'', description = ''Mouseover is alive'',
          example = None\<rparr>),
      (''mouseover.enemy'',
       \<lparr>exprType = ''unit'', description = ''Mouseover is an enemy'',
          example = None\<rparr>),
      (''mouseover.friendly'',
       \<lparr>exprType = ''unit'', description = ''Mouseover is friendly'',
          example = None\<rparr>),
      (''mouseover.health.pct'',
       \<lparr>exprType = ''unit'', description = ''Mouseover health percentage'',
          example = None\<rparr>),
      (''mouseover.range'',
       \<lparr>exprType = ''unit'', description = ''Distance to mouseover'',
          example = None\<rparr>),
      (''mouseover.casting'',
       \<lparr>exprType = ''unit'', description = ''Mouseover is casting'',
          example = None\<rparr>),
      (''mouseover.casting.interruptible'',
       \<lparr>exprType = ''unit'', description = ''Mouseover cast can be interrupted'',
          example = None\<rparr>),
      (''pet.exists'',
       \<lparr>exprType = ''pet'', description = ''Pet exists'',
          example = None\<rparr>),
      (''pet.alive'',
       \<lparr>exprType = ''pet'', description = ''Pet is alive'',
          example = None\<rparr>),
      (''pet.nearby_enemies'',
       \<lparr>exprType = ''pet'', description = ''Enemies within 8 yards of pet'',
          example = None\<rparr>),
      (''active_enemies'',
       \<lparr>exprType = ''combat'', description = ''Enemies in combat range'',
          example = Some ''if=active_enemies>=3''\<rparr>),
      (''spell_targets'',
       \<lparr>exprType = ''combat'', description = ''Same as active_enemies'',
          example = None\<rparr>),
      (''enemies.8y'',
       \<lparr>exprType = ''combat'', description = ''Enemies within 8 yards'',
          example = None\<rparr>),
      (''enemies.15y'',
       \<lparr>exprType = ''combat'', description = ''Enemies within 15 yards'',
          example = None\<rparr>),
      (''enemies.40y'',
       \<lparr>exprType = ''combat'', description = ''Enemies within 40 yards'',
          example = None\<rparr>),
      (''enemies.combat.8y'',
       \<lparr>exprType = ''combat'', description = ''Enemies in combat within 8y'',
          example = None\<rparr>),
      (''enemies.combat.15y'',
       \<lparr>exprType = ''combat'', description = ''Enemies in combat within 15y'',
          example = None\<rparr>),
      (''enemies.combat.40y'',
       \<lparr>exprType = ''combat'', description = ''Enemies in combat within 40y'',
          example = None\<rparr>),
      (''combat.enemies'',
       \<lparr>exprType = ''combat'', description = ''Enemies in combat (deprecated)'',
          example = None\<rparr>),
      (''combat.enemies.8y'',
       \<lparr>exprType = ''combat'', description = ''Enemies in combat within 8y'',
          example = None\<rparr>),
      (''group.lowest.health.pct'',
       \<lparr>exprType = ''group'', description = ''Lowest member health %'',
          example = Some ''if=group.lowest.health.pct<50''\<rparr>),
      (''group.lowest.range'',
       \<lparr>exprType = ''group'', description = ''Range to lowest member'',
          example = None\<rparr>),
      (''group.tanks.lowest.health.pct'',
       \<lparr>exprType = ''group'', description = ''Lowest tank health %'',
          example = None\<rparr>),
      (''group.healers.lowest.health.pct'',
       \<lparr>exprType = ''group'', description = ''Lowest healer health %'',
          example = None\<rparr>),
      (''group.dps.lowest.health.pct'',
       \<lparr>exprType = ''group'', description = ''Lowest DPS health %'',
          example = None\<rparr>),
      (''group.under_pct_30'',
       \<lparr>exprType = ''group'', description = ''Members under 30% health'',
          example = None\<rparr>),
      (''group.under_pct_50'',
       \<lparr>exprType = ''group'', description = ''Members under 50% health'',
          example = None\<rparr>),
      (''group.under_pct_75'',
       \<lparr>exprType = ''group'', description = ''Members under 75% health'',
          example = None\<rparr>),
      (''group.under_pct_80'',
       \<lparr>exprType = ''group'', description = ''Members under 80% health'',
          example = None\<rparr>),
      (''group.in_range_10'',
       \<lparr>exprType = ''group'', description = ''Members within 10 yards'',
          example = None\<rparr>),
      (''group.in_range_30'',
       \<lparr>exprType = ''group'', description = ''Members within 30 yards'',
          example = None\<rparr>),
      (''group.in_range_40'',
       \<lparr>exprType = ''group'', description = ''Members within 40 yards'',
          example = None\<rparr>),
      (''totem.SPELL.up'',
       \<lparr>exprType = ''totem'', description = ''Totem is active'',
          example = Some ''if=totem.fire_elemental.up''\<rparr>),
      (''totem.SPELL.remains'',
       \<lparr>exprType = ''totem'', description = ''Time until totem expires'',
          example = None\<rparr>),
      (''trinket_1.ready'',
       \<lparr>exprType = ''equipment'', description = ''Trinket 1 is off cooldown'',
          example = None\<rparr>),
      (''trinket_1.cd'',
       \<lparr>exprType = ''equipment'', description = ''Trinket 1 cooldown remaining'',
          example = None\<rparr>),
      (''trinket_1.id'',
       \<lparr>exprType = ''equipment'', description = ''Trinket 1 item ID'',
          example = None\<rparr>),
      (''trinket_1.usable'',
       \<lparr>exprType = ''equipment'', description = ''Trinket 1 is usable'',
          example = None\<rparr>),
      (''trinket_1.sync'',
       \<lparr>exprType = ''equipment'', description = ''Trinket 1 ready + burst check'',
          example = Some ''if=trinket_1.sync''\<rparr>),
      (''trinket_2.ready'',
       \<lparr>exprType = ''equipment'', description = ''Trinket 2 is off cooldown'',
          example = None\<rparr>),
      (''trinket_2.cd'',
       \<lparr>exprType = ''equipment'', description = ''Trinket 2 cooldown remaining'',
          example = None\<rparr>),
      (''trinket_2.id'',
       \<lparr>exprType = ''equipment'', description = ''Trinket 2 item ID'',
          example = None\<rparr>),
      (''trinket_2.usable'',
       \<lparr>exprType = ''equipment'', description = ''Trinket 2 is usable'',
          example = None\<rparr>),
      (''trinket_2.sync'',
       \<lparr>exprType = ''equipment'', description = ''Trinket 2 ready + burst check'',
          example = None\<rparr>),
      (''main_hand.2h'',
       \<lparr>exprType = ''equipment'', description = ''1 if using 2H weapon'',
          example = None\<rparr>),
      (''mainhand.enchant.up'',
       \<lparr>exprType = ''equipment'', description = ''Main hand has temp enchant'',
          example = None\<rparr>),
      (''mainhand.enchant.remains'',
       \<lparr>exprType = ''equipment'', description = ''Main hand enchant time left'',
          example = None\<rparr>),
      (''offhand.enchant.up'',
       \<lparr>exprType = ''equipment'', description = ''Off hand has temp enchant'',
          example = None\<rparr>),
      (''offhand.enchant.remains'',
       \<lparr>exprType = ''equipment'', description = ''Off hand enchant time left'',
          example = None\<rparr>),
      (''set_bonus.TIER_2pc'',
       \<lparr>exprType = ''equipment'', description = ''Have 2-piece tier bonus'',
          example = None\<rparr>),
      (''set_bonus.TIER_4pc'',
       \<lparr>exprType = ''equipment'', description = ''Have 4-piece tier bonus'',
          example = None\<rparr>),
      (''healthstone.ready'',
       \<lparr>exprType = ''consumable'', description = ''Healthstone is ready'',
          example = None\<rparr>),
      (''healthstone.cd'',
       \<lparr>exprType = ''consumable'', description = ''Healthstone cooldown'',
          example = None\<rparr>),
      (''health_potion.ready'',
       \<lparr>exprType = ''consumable'', description = ''Health potion is ready'',
          example = None\<rparr>),
      (''mana_potion.ready'',
       \<lparr>exprType = ''consumable'', description = ''Mana potion is ready'',
          example = None\<rparr>),
      (''combat_potion.ready'',
       \<lparr>exprType = ''consumable'', description = ''Combat potion is ready'',
          example = None\<rparr>),
      (''interrupts.target.ready'',
       \<lparr>exprType = ''interrupt'', description = ''Target casting interruptible spell'',
          example = None\<rparr>),
      (''interrupts.target.stun.ready'',
       \<lparr>exprType = ''interrupt'', description = ''Target casting stun-able spell'',
          example = None\<rparr>),
      (''interrupts.focus.ready'',
       \<lparr>exprType = ''interrupt'', description = ''Focus casting interruptible spell'',
          example = None\<rparr>),
      (''interrupts.8y.ready'',
       \<lparr>exprType = ''interrupt'', description = ''Any enemy in 8y casting interruptible'',
          example = None\<rparr>),
      (''interrupts.40y.ready'',
       \<lparr>exprType = ''interrupt'', description = ''Any enemy in 40y casting interruptible'',
          example = None\<rparr>),
      (''interrupts.8y.count'',
       \<lparr>exprType = ''interrupt'', description = ''Count of enemies casting in 8y'',
          example = None\<rparr>),
      (''defensives.ready'',
       \<lparr>exprType = ''defensive'', description = ''Enemy casting dangerous spell'',
          example = None\<rparr>),
      (''defensives.ready.aoe'',
       \<lparr>exprType = ''defensive'', description = ''Enemy casting AoE spell'',
          example = None\<rparr>),
      (''reflectable.ready'',
       \<lparr>exprType = ''reflect'', description = ''Enemy casting reflectable spell'',
          example = None\<rparr>),
      (''state.rotation'',
       \<lparr>exprType = ''state'', description = ''Rotation enabled/disabled'',
          example = None\<rparr>),
      (''state.cds'',
       \<lparr>exprType = ''state'', description = ''Cooldowns enabled/disabled'',
          example = Some ''if=state.cds''\<rparr>),
      (''state.aoe'',
       \<lparr>exprType = ''state'', description = ''AOE mode enabled/disabled'',
          example = None\<rparr>),
      (''state.blocked_inputs'',
       \<lparr>exprType = ''state'', description = ''Input blocking enabled'',
          example = None\<rparr>),
      (''var.VARNAME'',
       \<lparr>exprType = ''variable'', description = ''User-defined variable value'',
          example = Some ''if=var.pooling''\<rparr>),
      (''config.SETTING'',
       \<lparr>exprType = ''config'', description = ''User config setting value'',
          example = Some ''if=config.use_aoe''\<rparr>),
      (''settings.SETTING'',
       \<lparr>exprType = ''config'', description = ''Alias for config.SETTING'',
          example = None\<rparr>),
      (''true'',
       \<lparr>exprType = ''literal'', description = ''Always true (1)'',
          example = None\<rparr>),
      (''false'',
       \<lparr>exprType = ''literal'', description = ''Always false (0)'',
          example = None\<rparr>)]"

definition lookupExpression :: "string \<Rightarrow> ExpressionInfo option" where
  \<comment> \<open>\<open>EXPRESSIONS[key]\<close>, \<open>None\<close> for \<open>undefined\<close>; every key looked up contains
      \<open>.SPELL.\<close>, so that no property inherited from \<open>Object.prototype\<close> is found\<close>
  "lookupExpression key = map_of EXPRESSIONS key"

text \<open>
  The six patterns of the first six branches of \<open>matchTemplate\<close> are \<open>^kind\.(\w+)\.(\w+)\<close>
  followed by \<open>\.any$\<close> or by \<open>$\<close>, for \<open>kind\<close> one of \<open>buff\<close>, \<open>debuff\<close>, \<open>dot\<close>. \<open>auraParts\<close> is
  the common part: the two names captured and what is left of the word.
\<close>

definition auraParts :: "string \<Rightarrow> string \<Rightarrow> (string \<times> string \<times> string) option" where
  "auraParts kind word =
     (if prefix (kind @ ''.'') word then
        (let r = drop (length kind + 1) word;
             spell = takeWhile isWordChar r;
             r1 = drop (length spell) r
         in if spell \<noteq> [] \<and> prefix ''.'' r1 then
              (let prop = takeWhile isWordChar (drop 1 r1);
                   r2 = drop (1 + length prop) r1
               in if prop \<noteq> [] then Some (spell, prop, r2) else None)
            else None)
      else None)"

definition anyMatch :: "string \<Rightarrow> string \<Rightarrow> (string \<times> string) option" where
  \<comment> \<open>\<open>word.match(/^buff\.(\w+)\.(\w+)\.any$/)\<close> and the same for \<open>debuff\<close> and \<open>dot\<close>\<close>
  "anyMatch kind word =
     (case auraParts kind word of
        None \<Rightarrow> None
      | Some (spell, prop, rest) \<Rightarrow> if rest = ''.any'' then Some (spell, prop) else None)"

definition baseMatch :: "string \<Rightarrow> string \<Rightarrow> (string \<times> string) option" where
  \<comment> \<open>\<open>word.match(/^buff\.(\w+)\.(\w+)$/)\<close> and the same for \<open>debuff\<close> and \<open>dot\<close>\<close>
  "baseMatch kind word =
     (case auraParts kind word of
        None \<Rightarrow> None
      | Some (spell, prop, rest) \<Rightarrow> if rest = [] then Some (spell, prop) else None)"

text \<open>
  A hover is modelled by what its text is built from: the kind of aura, whether the shape
  is the one with \<open>.any\<close>, the spell and the property captured, whether the text is that of
  the cycle context (the branch of \<open>buff\<close> only), and the description taken from the
  catalog.
\<close>

record hover =
  hKind :: string
  hAny :: bool
  hSpell :: string
  hProp :: string
  hCycle :: bool
  hDescription :: string

definition anyHover :: "string \<Rightarrow> string \<Rightarrow> hover option" where
  \<comment> \<open>a branch \<open>kind.SPELL.property.any\<close>: the description is
      \<open>(EXPRESSIONS[templateKeyAny] || EXPRESSIONS[templateKey]).description\<close>\<close>
  "anyHover kind word =
     (case anyMatch kind word of
        None \<Rightarrow> None
      | Some (spell, prop) \<Rightarrow>
          (case lookupExpression (kind @ ''.SPELL.'' @ prop @ ''.any'') of
             Some e \<Rightarrow> Some \<lparr>hKind = kind, hAny = True, hSpell = spell, hProp = prop,
                              hCycle = False, hDescription = description e\<rparr>
           | None \<Rightarrow>
               (case lookupExpression (kind @ ''.SPELL.'' @ prop) of
                  Some e \<Rightarrow> Some \<lparr>hKind = kind, hAny = True, hSpell = spell, hProp = prop,
                                   hCycle = False, hDescription = description e\<rparr>
                | None \<Rightarrow> None)))"

definition baseHover :: "string \<Rightarrow> bool \<Rightarrow> string \<Rightarrow> hover option" where
  \<comment> \<open>a branch \<open>kind.SPELL.property\<close>\<close>
  "baseHover kind cycleText word =
     (case baseMatch kind word of
        None \<Rightarrow> None
      | Some (spell, prop) \<Rightarrow>
          (case lookupExpression (kind @ ''.SPELL.'' @ prop) of
             Some e \<Rightarrow> Some \<lparr>hKind = kind, hAny = False, hSpell = spell, hProp = prop,
                              hCycle = cycleText, hDescription = description e\<rparr>
           | None \<Rightarrow> None))"

definition orElse :: "'a option \<Rightarrow> 'a option \<Rightarrow> 'a option" where
  "orElse x y = (case x of Some v \<Rightarrow> Some v | None \<Rightarrow> y)"

definition matchTemplate :: "string \<Rightarrow> bool \<Rightarrow> hover option" where
  \<comment> \<open>the branches for \<open>buff\<close>, \<open>debuff\<close> and \<open>dot\<close>, in the order of the source; the result is
      \<open>None\<close> where the source goes on to its other shapes (\<open>cooldown\<close>, \<open>totem\<close>, ...)\<close>
  "matchTemplate word hasCycleContext =
     orElse (anyHover ''buff'' word)
       (orElse (baseHover ''buff'' hasCycleContext word)
          (orElse (anyHover ''debuff'' word)
             (orElse (baseHover ''debuff'' False word)
                (orElse (anyHover ''dot'' word)
                   (baseHover ''dot'' False word)))))"

definition stripAny :: "string \<Rightarrow> string" where
  \<comment> \<open>the word without its last four characters\<close>
  "stripAny word = take (length word - 4) word"

text \<open>No key of the catalog ends in \<open>.any\<close>.\<close>

definition endsWithAny :: "string \<Rightarrow> bool" where
  "endsWithAny key = (drop (length key - 4) key = ''.any'' \<and> 4 \<le> length key)"

lemma no_any_keys: "list_all (\<lambda>(key, info). \<not> endsWithAny key) EXPRESSIONS"
  by code_simp

lemma lookup_any_None: "lookupExpression (k @ ''.any'') = None"
proof -
  have "k @ ''.any'' \<notin> fst ` set EXPRESSIONS"
  proof
    assume "k @ ''.any'' \<in> fst ` set EXPRESSIONS"
    then obtain info where "(k @ ''.any'', info) \<in> set EXPRESSIONS" by auto
    with no_any_keys have "\<not> endsWithAny (k @ ''.any'')"
      by (auto simp: list_all_iff)
    then show False by (simp add: endsWithAny_def)
  qed
  then show ?thesis by (simp add: lookupExpression_def map_of_eq_None_iff)
qed

lemma dot_not_word [simp]: "\<not> isWordChar CHR ''.''"
  by (simp add: isWordChar_def isLower_def isUpper_def isDigit_def)

lemma takeWhile_all: "list_all P xs \<Longrightarrow> takeWhile P xs = xs"
  by (induction xs) simp_all

lemma takeWhile_stop: "list_all P xs \<Longrightarrow> \<not> P c \<Longrightarrow> takeWhile P (xs @ c # ys) = xs"
  by (induction xs) simp_all

lemma split_word: "xs = takeWhile P xs @ drop (length (takeWhile P xs)) xs"
  by (simp only: dropWhile_eq_drop [symmetric] takeWhile_dropWhile_id)

lemma prefix_drop: "prefix p xs \<Longrightarrow> xs = p @ drop (length p) xs"
  by (auto simp: prefix_def)

lemma auraParts_shape:
  assumes "auraParts kind word = Some (spell, prp, rest)"
  shows "word = kind @ ''.'' @ spell @ ''.'' @ prp @ rest"
    and "spell \<noteq> []" and "prp \<noteq> []"
    and "list_all isWordChar spell" and "list_all isWordChar prp"
proof -
  define r where "r = drop (length kind + 1) word"
  define r1 where "r1 = drop (length (takeWhile isWordChar r)) r"
  define r2 where "r2 = drop 1 r1"
  from assms have p: "prefix (kind @ ''.'') word"
    by (simp add: auraParts_def split: if_splits)
  from assms p have s: "spell = takeWhile isWordChar r" and sn: "spell \<noteq> []"
    and d: "prefix ''.'' r1"
    and pr: "prp = takeWhile isWordChar r2" and pn: "prp \<noteq> []"
    and re: "rest = drop (1 + length prp) r1"
    by (auto simp: auraParts_def Let_def r_def r1_def r2_def split: if_splits)
  have w: "word = (kind @ ''.'') @ r"
    using prefix_drop [OF p] by (simp add: r_def)
  have r: "r = spell @ r1"
    unfolding s r1_def by (rule split_word)
  have r1: "r1 = ''.'' @ r2"
    using prefix_drop [OF d] by (simp add: r2_def)
  have "rest = drop (length prp) r2"
    unfolding re r2_def by simp
  then have r2: "r2 = prp @ rest"
    unfolding pr using split_word [of r2 isWordChar] by simp
  show "word = kind @ ''.'' @ spell @ ''.'' @ prp @ rest"
    by (subst w, subst r, subst r1, subst r2) simp
  show "spell \<noteq> []" by (rule sn)
  show "prp \<noteq> []" by (rule pn)
  show "list_all isWordChar spell" unfolding s list_all_iff by (metis set_takeWhileD)
  show "list_all isWordChar prp" unfolding pr list_all_iff by (metis set_takeWhileD)
qed

lemma auraParts_build:
  assumes "spell \<noteq> []" "prp \<noteq> []" "list_all isWordChar spell" "list_all isWordChar prp"
    and "rest = [] \<or> \<not> isWordChar (hd rest)"
  shows "auraParts kind (kind @ ''.'' @ spell @ ''.'' @ prp @ rest) = Some (spell, prp, rest)"
proof -
  have t1: "takeWhile isWordChar (spell @ CHR ''.'' # prp @ rest) = spell"
    using assms(3) by (intro takeWhile_stop) simp_all
  have t2: "takeWhile isWordChar (prp @ rest) = prp"
  proof (cases rest)
    case Nil
    with assms(4) show ?thesis by (simp add: takeWhile_all)
  next
    case (Cons c cs)
    with assms(5) have "\<not> isWordChar c" by simp
    with assms(4) Cons show ?thesis by (simp add: takeWhile_stop)
  qed
  show ?thesis
    using assms(1,2) by (simp add: auraParts_def Let_def t1 t2)
qed

lemma anyMatch_to_baseMatch:
  assumes "anyMatch kind word = Some (spell, prp)"
  shows "word = stripAny word @ ''.any''"
    and "baseMatch kind (stripAny word) = Some (spell, prp)"
    and "anyMatch kind (stripAny word) = None"
    and "stripAny word = kind @ ''.'' @ spell @ ''.'' @ prp"
proof -
  from assms have ap: "auraParts kind word = Some (spell, prp, ''.any'')"
    by (auto simp: anyMatch_def split: option.splits if_splits)
  note sh = auraParts_shape [OF ap]
  have w: "word = (kind @ ''.'' @ spell @ ''.'' @ prp) @ ''.any''" using sh(1) by simp
  have st: "stripAny word = kind @ ''.'' @ spell @ ''.'' @ prp"
    by (subst w, simp add: stripAny_def)
  show "stripAny word = kind @ ''.'' @ spell @ ''.'' @ prp" by (rule st)
  show "word = stripAny word @ ''.any''" unfolding st using w by simp
  have b: "auraParts kind (kind @ ''.'' @ spell @ ''.'' @ prp @ []) = Some (spell, prp, [])"
    by (rule auraParts_build) (use sh in simp_all)
  then show "baseMatch kind (stripAny word) = Some (spell, prp)"
    by (simp add: baseMatch_def st)
  from b show "anyMatch kind (stripAny word) = None"
    by (simp add: anyMatch_def st)
qed

lemma anyHover_Some:
  assumes "anyHover kind word = Some h"
  obtains spell prp e where "anyMatch kind word = Some (spell, prp)"
    and "lookupExpression (kind @ ''.SPELL.'' @ prp) = Some e"
    and "hKind h = kind" "hSpell h = spell" "hProp h = prp" "hAny h"
proof -
  from assms obtain spell prp where m: "anyMatch kind word = Some (spell, prp)"
    by (auto simp: anyHover_def split: option.splits)
  have n: "lookupExpression ((kind @ ''.SPELL.'' @ prp) @ ''.any'') = None"
    by (rule lookup_any_None)
  with assms m obtain e where e: "lookupExpression (kind @ ''.SPELL.'' @ prp) = Some e"
    and h: "h = \<lparr>hKind = kind, hAny = True, hSpell = spell, hProp = prp,
                              hCycle = False, hDescription = description e\<rparr>"
    by (auto simp: anyHover_def split: option.splits)
  show ?thesis by (rule that [OF m e]) (simp_all add: h)
qed

lemma baseHover_not_any: "baseHover kind c word = Some h \<Longrightarrow> \<not> hAny h"
  by (auto simp: baseHover_def split: option.splits)

lemma stripped_base:
  assumes "anyHover kind word = Some h"
  shows "word = stripAny word @ ''.any''"
    and "anyHover kind (stripAny word) = None"
    and "\<exists>h'. baseHover kind c (stripAny word) = Some h' \<and> \<not> hAny h' \<and> hKind h' = hKind h
           \<and> hSpell h' = hSpell h \<and> hProp h' = hProp h"
    and "\<exists>spell prp. stripAny word = kind @ ''.'' @ spell @ ''.'' @ prp"
proof -
  from assms obtain spell prp e where m: "anyMatch kind word = Some (spell, prp)"
    and e: "lookupExpression (kind @ ''.SPELL.'' @ prp) = Some e"
    and hk: "hKind h = kind" "hSpell h = spell" "hProp h = prp"
    by (rule anyHover_Some)
  note s = anyMatch_to_baseMatch [OF m]
  show "word = stripAny word @ ''.any''" by (rule s(1))
  show "anyHover kind (stripAny word) = None" by (simp add: anyHover_def s(3))
  show "\<exists>h'. baseHover kind c (stripAny word) = Some h' \<and> \<not> hAny h' \<and> hKind h' = hKind h
           \<and> hSpell h' = hSpell h \<and> hProp h' = hProp h"
    using e by (simp add: baseHover_def s(2) hk)
  show "\<exists>spell prp. stripAny word = kind @ ''.'' @ spell @ ''.'' @ prp"
    using s(4) by blast
qed

lemma orElse_simps [simp]: "orElse None y = y" "orElse (Some v) y = Some v"
  by (simp_all add: orElse_def)

lemma anyHover_other_kind:
  "anyHover ''buff'' (''debuff'' @ ''.'' @ rest) = None"
  "anyHover ''buff'' (''dot'' @ ''.'' @ rest) = None"
  "anyHover ''debuff'' (''dot'' @ ''.'' @ rest) = None"
  by (simp_all add: anyHover_def anyMatch_def auraParts_def)

lemma baseHover_other_kind:
  "baseHover ''buff'' c (''debuff'' @ ''.'' @ rest) = None"
  "baseHover ''buff'' c (''dot'' @ ''.'' @ rest) = None"
  "baseHover ''debuff'' c (''dot'' @ ''.'' @ rest) = None"
  by (simp_all add: baseHover_def baseMatch_def auraParts_def)

lemma matchTemplate_any_cases:
  assumes "matchTemplate word cyc = Some h" and "hAny h"
  shows "anyHover ''buff'' word = Some h
       \<or> (anyHover ''debuff'' word = Some h) \<or> (anyHover ''dot'' word = Some h)"
  using assms
  by (auto simp: matchTemplate_def orElse_def split: option.splits dest: baseHover_not_any)

text \<open>
  C7. A word for which \<open>matchTemplate\<close> takes one of its three \<open>.any\<close> branches
  (\<open>buff.X.prop.any\<close>, \<open>debuff.X.prop.any\<close>, \<open>dot.X.prop.any\<close>) ends in \<open>.any\<close>, and without
  these four characters \<open>matchTemplate\<close> takes the base branch of the same kind, with the
  same spell and the same property captured.
\<close>

theorem any_suffix_strips_to_base:
  assumes "matchTemplate word hasCycleContext = Some h" and "hAny h"
  shows "word = stripAny word @ ''.any''
     \<and> (case matchTemplate (stripAny word) hasCycleContext of
          None \<Rightarrow> False
        | Some h' \<Rightarrow> \<not> hAny h' \<and> hKind h' = hKind h \<and> hSpell h' = hSpell h \<and> hProp h' = hProp h)"
proof -
  consider (buff) "anyHover ''buff'' word = Some h"
    | (debuff) "anyHover ''debuff'' word = Some h"
    | (dot) "anyHover ''dot'' word = Some h"
    using matchTemplate_any_cases [OF assms] by blast
  then show ?thesis
  proof cases
    case buff
    note s = stripped_base [OF buff]
    from s(3) [of hasCycleContext] obtain h' where "baseHover ''buff'' hasCycleContext (stripAny word) = Some h'"
      and "\<not> hAny h' \<and> hKind h' = hKind h \<and> hSpell h' = hSpell h \<and> hProp h' = hProp h"
      by blast
    then show ?thesis using s(1,2) by (simp add: matchTemplate_def)
  next
    case debuff
    note s = stripped_base [OF debuff]
    from s(4) obtain spell prp where w: "stripAny word = ''debuff'' @ ''.'' @ spell @ ''.'' @ prp"
      by blast
    from s(3) [of False] obtain h' where "baseHover ''debuff'' False (stripAny word) = Some h'"
      and "\<not> hAny h' \<and> hKind h' = hKind h \<and> hSpell h' = hSpell h \<and> hProp h' = hProp h"
      by blast
    moreover have "anyHover ''buff'' (stripAny word) = None"
      "baseHover ''buff'' hasCycleContext (stripAny word) = None"
      unfolding w by (rule anyHover_other_kind baseHover_other_kind)+
    ultimately show ?thesis using s(1,2) by (simp add: matchTemplate_def)
  next
    case dot
    note s = stripped_base [OF dot]
    from s(4) obtain spell prp where w: "stripAny word = ''dot'' @ ''.'' @ spell @ ''.'' @ prp"
      by blast
    from s(3) [of False] obtain h' where "baseHover ''dot'' False (stripAny word) = Some h'"
      and "\<not> hAny h' \<and> hKind h' = hKind h \<and> hSpell h' = hSpell h \<and> hProp h' = hProp h"
      by blast
    moreover have "anyHover ''buff'' (stripAny word) = None"
      "baseHover ''buff'' hasCycleContext (stripAny word) = None"
      "anyHover ''debuff'' (stripAny word) = None"
      "baseHover ''debuff'' False (stripAny word) = None"
      unfolding w by (rule anyHover_other_kind baseHover_other_kind)+
    ultimately show ?thesis using s(1,2) by (simp add: matchTemplate_def)
  qed
qed

theorem any_suffix_strips_to_base_witness:
  "matchTemplate ''debuff.rend.remains.any'' False
     = Some \<lparr>hKind = ''debuff'', hAny = True, hSpell = ''rend'', hProp = ''remains'',
             hCycle = False, hDescription = ''Time remaining''\<rparr>
   \<and> stripAny ''debuff.rend.remains.any'' = ''debuff.rend.remains''
   \<and> matchTemplate ''debuff.rend.remains'' False
     = Some \<lparr>hKind = ''debuff'', hAny = False, hSpell = ''rend'', hProp = ''remains'',
             hCycle = False, hDescription = ''Time remaining''\<rparr>"
proof -
  let ?h = "\<lparr>hKind = ''debuff'', hAny = True, hSpell = ''rend'', hProp = ''remains'',
             hCycle = False, hDescription = ''Time remaining''\<rparr>"
  have a: "matchTemplate ''debuff.rend.remains.any'' False = Some ?h" by code_simp
  have b: "stripAny ''debuff.rend.remains.any'' = ''debuff.rend.remains''" by code_simp
  have c: "matchTemplate ''debuff.rend.remains'' False
     = Some \<lparr>hKind = ''debuff'', hAny = False, hSpell = ''rend'', hProp = ''remains'',
             hCycle = False, hDescription = ''Time remaining''\<rparr>" by code_simp
  have "hAny ?h" by simp
  from any_suffix_strips_to_base [OF a this] a b c show ?thesis by simp
qed

end
